theory Spec2Isabelle
  imports Main
begin

section \<open>Values shared by both binaries\<close>

text \<open>
  A JSON document as \<^verbatim>\<open>encoding/json\<close> produces it. An object keeps its members
  in the order the encoder writes them (a Go map is written with its keys sorted).
\<close>

datatype json =
    JNull
  | JBool bool
  | JNumber int
  | JString string
  | JObject "(string \<times> json) list"

text \<open>
  A value of Go's \<^verbatim>\<open>error\<close> interface, by its dynamic type:
  \<^item> \<open>ErrorString s\<close> is what \<^verbatim>\<open>errors.New(s)\<close> and \<^verbatim>\<open>fmt.Errorf\<close> return:
    a pointer to a struct whose only field, the message, is unexported;
  \<^item> \<open>StructError s fs\<close> is an error type with message \<open>s\<close> whose exported
    fields are \<open>fs\<close>.
\<close>

datatype go_error =
    ErrorString string
  | StructError string "(string \<times> json) list"

text \<open>The method \<^verbatim>\<open>Error() string\<close> of the interface.\<close>

fun Error :: "go_error \<Rightarrow> string" where
  "Error (ErrorString s) = s"
| "Error (StructError s fs) = s"

text \<open>
  What \<^verbatim>\<open>encoding/json\<close> writes for an error value stored in an
  \<^verbatim>\<open>interface{}\<close>: the encoder reflects on the dynamic type and writes its exported
  fields. It never calls \<^verbatim>\<open>Error()\<close>.
\<close>

fun marshalError :: "go_error \<Rightarrow> json" where
  "marshalError (ErrorString s) = JObject []"
| "marshalError (StructError s fs) = JObject fs"

text \<open>A panic of the Go runtime, with what it reports.\<close>

datatype panic =
    TypeAssertion string string
  | PanicMsg string

section \<open>apigateway: the HTTP binder (http_server.go)\<close>

subsection \<open>The response writer\<close>

text \<open>
  \<^verbatim>\<open>http.ResponseWriter\<close>: the header map, the status line once it is written, and
  the documents written to the body. The first write without a status writes 200.
\<close>

record ResponseWriter =
  header :: "string \<rightharpoonup> string"
  status :: "int option"
  body :: "json list"

definition newResponseWriter :: ResponseWriter where
  "newResponseWriter = \<lparr>header = Map.empty, status = None, body = []\<rparr>"

definition Header_Set :: "string \<Rightarrow> string \<Rightarrow> ResponseWriter \<Rightarrow> ResponseWriter" where
  "Header_Set k v w = w\<lparr>header := (header w)(k \<mapsto> v)\<rparr>"

definition WriteHeader :: "int \<Rightarrow> ResponseWriter \<Rightarrow> ResponseWriter" where
  "WriteHeader code w = (case status w of None \<Rightarrow> w\<lparr>status := Some code\<rparr> | Some c \<Rightarrow> w)"

text \<open>\<^verbatim>\<open>json.NewEncoder(w).Encode(v)\<close>: one document written to \<open>w\<close>.\<close>

definition Encode :: "json \<Rightarrow> ResponseWriter \<Rightarrow> ResponseWriter" where
  "Encode doc w = (let w' = WriteHeader 200 w in w'\<lparr>body := body w' @ [doc]\<rparr>)"

text \<open>\<^verbatim>\<open>http.StatusText\<close>: the rows of the standard table; the empty string otherwise.\<close>

definition StatusText :: "int \<Rightarrow> string" where
  "StatusText code =
     (if code = 200 then ''OK''
      else if code = 201 then ''Created''
      else if code = 202 then ''Accepted''
      else if code = 204 then ''No Content''
      else if code = 301 then ''Moved Permanently''
      else if code = 302 then ''Found''
      else if code = 304 then ''Not Modified''
      else if code = 400 then ''Bad Request''
      else if code = 401 then ''Unauthorized''
      else if code = 403 then ''Forbidden''
      else if code = 404 then ''Not Found''
      else if code = 405 then ''Method Not Allowed''
      else if code = 409 then ''Conflict''
      else if code = 415 then ''Unsupported Media Type''
      else if code = 422 then ''Unprocessable Entity''
      else if code = 500 then ''Internal Server Error''
      else if code = 501 then ''Not Implemented''
      else if code = 502 then ''Bad Gateway''
      else if code = 503 then ''Service Unavailable''
      else if code = 504 then ''Gateway Timeout''
      else [])"

subsection \<open>respondError and respondSuccess\<close>

text \<open>
  The map literal of \<^verbatim>\<open>respondError\<close> holds the error value itself under
  \<^verbatim>\<open>"error"\<close>, so the encoder writes \<open>marshalError err\<close> there. The three keys
  are already in sorted order.
\<close>

definition respondError :: "ResponseWriter \<Rightarrow> int \<Rightarrow> go_error \<Rightarrow> ResponseWriter" where
  "respondError w code err =
     Encode (JObject [(''error'', marshalError err),
                      (''status_code'', JNumber code),
                      (''status_text'', JString (StatusText code))])
       (WriteHeader code
          (Header_Set ''Content-Type'' ''application/json; charset=utf-8'' w))"

text \<open>
  \<^verbatim>\<open>respondSuccess\<close> encodes the response value; \<open>enc\<close> is the encoding of the
  \<^verbatim>\<open>loginResponse\<close> type, whose declaration is in another file of the package.
\<close>

definition respondSuccess :: "('p \<Rightarrow> json) \<Rightarrow> ResponseWriter \<Rightarrow> 'p \<Rightarrow> ResponseWriter" where
  "respondSuccess enc w data =
     Encode (enc data) (Header_Set ''Content-Type'' ''application/json; charset=utf-8'' w)"

subsection \<open>Interface values and type assertions\<close>

text \<open>
  A value of type \<^verbatim>\<open>interface{}\<close> as the handler meets it: nil, a
  \<^verbatim>\<open>loginRequest\<close>, a \<^verbatim>\<open>loginResponse\<close>, or a value of another dynamic type
  (named). The payload types \<open>'q\<close> and \<open>'p\<close> stand for the two struct types.
\<close>

datatype ('q, 'p) any =
    NilVal
  | LoginRequestVal 'q
  | LoginResponseVal 'p
  | OtherVal string

fun typeName :: "('q, 'p) any \<Rightarrow> string" where
  "typeName NilVal = ''nil''"
| "typeName (LoginRequestVal q) = ''apigateway.loginRequest''"
| "typeName (LoginResponseVal p) = ''apigateway.loginResponse''"
| "typeName (OtherVal t) = t"

text \<open>The unchecked assertions \<^verbatim>\<open>x.(loginRequest)\<close> and \<^verbatim>\<open>x.(loginResponse)\<close>.\<close>

fun assertLoginRequest :: "('q, 'p) any \<Rightarrow> panic + 'q" where
  "assertLoginRequest (LoginRequestVal q) = Inr q"
| "assertLoginRequest v = Inl (TypeAssertion (typeName v) ''apigateway.loginRequest'')"

fun assertLoginResponse :: "('q, 'p) any \<Rightarrow> panic + 'p" where
  "assertLoginResponse (LoginResponseVal p) = Inr p"
| "assertLoginResponse v = Inl (TypeAssertion (typeName v) ''apigateway.loginResponse'')"

subsection \<open>HandleLoginPost\<close>

text \<open>
  The receiver: its context and the login endpoint. An endpoint is a function value that
  may have effects behind it (the capability, its counters); \<open>'s\<close> is the state it acts
  on, passed in and returned.
\<close>

record ('c, 'q, 'p, 's) Endpoints =
  Ctx :: 'c
  LoginEndpoint :: "'c \<Rightarrow> 'q \<Rightarrow> 's \<Rightarrow> (('q, 'p) any \<times> go_error option) \<times> 's"

text \<open>
  The two parts of the package that the handler uses and that live in other files:
  \<^verbatim>\<open>decodeLoginRequest\<close> and the JSON encoding of \<^verbatim>\<open>loginResponse\<close>.
\<close>

record ('c, 'r, 'q, 'p) package =
  decodeLoginRequest :: "'c \<Rightarrow> 'r \<Rightarrow> ('q, 'p) any \<times> go_error option"
  encodeLoginResponse :: "'p \<Rightarrow> json"

text \<open>
  The handler returns the writer as it leaves it, or the panic that stopped it, together
  with the state behind the endpoint.
\<close>

definition HandleLoginPost ::
  "('c, 'r, 'q, 'p) package \<Rightarrow> ('c, 'q, 'p, 's) Endpoints \<Rightarrow> ResponseWriter \<Rightarrow> 'r \<Rightarrow> 's
     \<Rightarrow> (panic + ResponseWriter) \<times> 's" where
  "HandleLoginPost pkg e w r s =
     (case decodeLoginRequest pkg (Ctx e) r of
        (decodedLoginReq, Some err) \<Rightarrow> (Inr (respondError w 500 err), s)
      | (decodedLoginReq, None) \<Rightarrow>
          (case assertLoginRequest decodedLoginReq of
             Inl p \<Rightarrow> (Inl p, s)
           | Inr req \<Rightarrow>
               (case LoginEndpoint e (Ctx e) req s of
                  ((resp, Some err), s') \<Rightarrow> (Inr (respondError w 500 err), s')
                | ((resp, None), s') \<Rightarrow>
                    (case assertLoginResponse resp of
                       Inl p \<Rightarrow> (Inl p, s')
                     | Inr data \<Rightarrow>
                         (Inr (respondSuccess (encodeLoginResponse pkg) w data), s')))))"

section \<open>vault: the server binary (cmd/server.go)\<close>

subsection \<open>Metrics constructed by main\<close>

text \<open>
  \<^verbatim>\<open>stdprometheus.CounterOpts\<close> and \<^verbatim>\<open>SummaryOpts\<close> with the four fields main
  sets, and the metric that \<^verbatim>\<open>kitprometheus.NewCounterFrom\<close> or
  \<^verbatim>\<open>NewSummaryFrom\<close> builds from them and from the label names.
\<close>

record Opts =
  Namespace :: string
  Subsystem :: string
  Name :: string
  Help :: string

datatype metric_kind = Counter | Summary

record metric =
  kind :: metric_kind
  opts :: Opts
  labelNames :: "string list"

definition NewCounterFrom :: "Opts \<Rightarrow> string list \<Rightarrow> metric" where
  "NewCounterFrom os names = \<lparr>kind = Counter, opts = os, labelNames = names\<rparr>"

definition NewSummaryFrom :: "Opts \<Rightarrow> string list \<Rightarrow> metric" where
  "NewSummaryFrom os names = \<lparr>kind = Summary, opts = os, labelNames = names\<rparr>"

definition fieldKeys :: "string list" where
  "fieldKeys = [''method'', ''error'']"

definition requestCount :: metric where
  "requestCount =
     NewCounterFrom \<lparr>Namespace = ''my_group'', Subsystem = ''vault_service'',
                     Name = ''request_count'',
                     Help = ''Number of requests received.''\<rparr> fieldKeys"

definition requestLatency :: metric where
  "requestLatency =
     NewSummaryFrom \<lparr>Namespace = ''my_group'', Subsystem = ''vault_service'',
                     Name = ''request_latency_microseconds'',
                     Help = ''Total duration of requests in microseconds.''\<rparr> fieldKeys"

definition countResult :: metric where
  "countResult =
     NewSummaryFrom \<lparr>Namespace = ''my_group'', Subsystem = ''vault_service'',
                     Name = ''count_result'',
                     Help = ''The result of each count method.''\<rparr> []"

subsection \<open>The composed service\<close>

text \<open>
  The logger main builds: the JSON logger on stderr, or the console writer when the
  \<^verbatim>\<open>--console\<close> flag is set.
\<close>

datatype logger = StderrLogger | ConsoleLogger

definition newLogger :: "bool \<Rightarrow> logger" where
  "newLogger console = (if console then ConsoleLogger else StderrLogger)"

text \<open>
  The interface \<^verbatim>\<open>vault.Service\<close> has three implementations: the capability that
  \<^verbatim>\<open>vault.NewService()\<close> returns and the two middleware structs, each holding
  the next service as its last field. The struct literals in main are positional.
\<close>

datatype service =
    NewService
  | LoggingMiddleware logger service
  | InstrumentingMiddleware metric metric metric service

text \<open>Lines 65 to 67 of main: the variable \<^verbatim>\<open>svc\<close> after its three assignments.\<close>

definition svc :: "bool \<Rightarrow> service" where
  "svc console =
     (let svc0 = NewService;
          svc1 = LoggingMiddleware (newLogger console) svc0;
          svc2 = InstrumentingMiddleware requestCount requestLatency countResult svc1
      in svc2)"

subsection \<open>The middleware of package vault\<close>

datatype svc_method = Hash | Validate

fun methodName :: "svc_method \<Rightarrow> string" where
  "methodName Hash = ''hash''"
| "methodName Validate = ''validate''"

datatype layer = Logging | Instrumenting

text \<open>
  What a call leaves behind, in the order it happens: a layer taking the call, the
  capability running, a layer seeing the result.
\<close>

datatype event =
    Enter layer svc_method
  | Performed svc_method
  | Leave layer svc_method "go_error option"

record log_record =
  lr_method :: string
  lr_took :: nat
  lr_err :: "go_error option"

text \<open>
  The metrics sink: for each metric name and label assignment, the value of the counter
  and the observations of the summary.
\<close>

type_synonym labels = "(string \<times> string) list"

record 's world =
  capState :: 's
  clock :: nat
  trace :: "event list"
  logs :: "log_record list"
  counterVals :: "string \<Rightarrow> labels \<Rightarrow> nat"
  summaryObs :: "string \<Rightarrow> labels \<Rightarrow> int list"

text \<open>
  The capability, external to the core: on a call it returns its output and error and
  changes its own state; it takes \<open>elapsed\<close> time units. \<open>numeric\<close> is the number its
  output stands for in the result summary.
\<close>

record ('a, 'v, 's) capability =
  perform :: "svc_method \<Rightarrow> 'a \<Rightarrow> 's \<Rightarrow> ('v \<times> go_error option) \<times> 's"
  elapsed :: "svc_method \<Rightarrow> 'a \<Rightarrow> 's \<Rightarrow> nat"
  numeric :: "'v \<Rightarrow> int"

text \<open>\<^verbatim>\<open>With(labelValues...)\<close> pairs the declared label names with the values given.\<close>

definition With :: "metric \<Rightarrow> string list \<Rightarrow> labels" where
  "With m vals = zip (labelNames m) vals"

definition Add :: "metric \<Rightarrow> string list \<Rightarrow> nat \<Rightarrow> 's world \<Rightarrow> 's world" where
  "Add m vals delta w =
     w\<lparr>counterVals := (counterVals w)
          (Name (opts m) := (counterVals w (Name (opts m)))
             (With m vals := counterVals w (Name (opts m)) (With m vals) + delta))\<rparr>"

definition Observe :: "metric \<Rightarrow> string list \<Rightarrow> int \<Rightarrow> 's world \<Rightarrow> 's world" where
  "Observe m vals x w =
     w\<lparr>summaryObs := (summaryObs w)
          (Name (opts m) := (summaryObs w (Name (opts m)))
             (With m vals := summaryObs w (Name (opts m)) (With m vals) @ [x]))\<rparr>"

definition errorLabel :: "go_error option \<Rightarrow> string" where
  "errorLabel err = (if err = None then ''false'' else ''true'')"

definition emit :: "event \<Rightarrow> 's world \<Rightarrow> 's world" where
  "emit ev w = w\<lparr>trace := trace w @ [ev]\<rparr>"

text \<open>
  Modelled from the spec: the methods of \<^verbatim>\<open>vault.LoggingMiddleware\<close> and
  \<^verbatim>\<open>vault.InstrumentingMiddleware\<close> (package vault is not among the source files).
  The logging decorator emits, after the underlying call returns, one record with the
  method name, the elapsed duration and the error, and does not alter the result. The
  instrumenting decorator, once per call and whatever the outcome, adds one to the request
  counter labelled by method and error, records the latency in the summary labelled the
  same way, and records the numeric result in the summary without labels.
\<close>

fun call ::
  "('a, 'v, 's) capability \<Rightarrow> service \<Rightarrow> svc_method \<Rightarrow> 'a \<Rightarrow> 's world
     \<Rightarrow> ('v \<times> go_error option) \<times> 's world" where
  "call cap NewService m a w =
     (case perform cap m a (capState w) of
        (res, s') \<Rightarrow>
          (res, emit (Performed m)
                  (w\<lparr>capState := s', clock := clock w + elapsed cap m a (capState w)\<rparr>)))"
| "call cap (LoggingMiddleware lg next) m a w =
     (let begin = clock w in
      case call cap next m a (emit (Enter Logging m) w) of
        ((v, err), w') \<Rightarrow>
          ((v, err),
           emit (Leave Logging m err)
             (w'\<lparr>logs := logs w' @
                   [\<lparr>lr_method = methodName m, lr_took = clock w' - begin, lr_err = err\<rparr>]\<rparr>)))"
| "call cap (InstrumentingMiddleware rc rl cr next) m a w =
     (let begin = clock w in
      case call cap next m a (emit (Enter Instrumenting m) w) of
        ((v, err), w') \<Rightarrow>
          ((v, err),
           emit (Leave Instrumenting m err)
             (Observe cr [] (numeric cap v)
               (Observe rl [methodName m, errorLabel err] (int (clock w' - begin))
                 (Add rc [methodName m, errorLabel err] 1 w')))))"

subsection \<open>Names a file may use\<close>

text \<open>
  A qualified identifier \<^verbatim>\<open>pkg.Name\<close> refers to an import of the file it stands in;
  the compiler rejects a file that names a package it does not import. The lists below
  are the import blocks of the two files, each import under the name the file uses for it.
\<close>

datatype compile_error = Undefined string

definition server_imports :: "string list" where
  "server_imports =
     [''context'', ''fmt'', ''kitprometheus'', ''grpc_opentracing'', ''httprouter'',
      ''opentracing'', ''stdprometheus'', ''promhttp'', ''zerolog'', ''log'', ''flag'',
      ''jaeger'', ''config'', ''grpc'', ''io'', ''vault'', ''pb'', ''net'', ''http'', ''os'',
      ''signal'', ''syscall'']"

definition http_server_imports :: "string list" where
  "http_server_imports = [''httprouter'', ''http'', ''json'', ''promhttp'']"

text \<open>
  A value obtained by calling an exported function of a package, such as
  \<^verbatim>\<open>promhttp.Handler()\<close>, or a method value of the receiver.
\<close>

datatype go_value =
    PkgCall string string
  | MethodValue string

definition resolve :: "string list \<Rightarrow> string \<Rightarrow> string \<Rightarrow> compile_error + go_value" where
  "resolve imports pkg name =
     (if pkg \<in> set imports then Inr (PkgCall pkg name) else Inl (Undefined pkg))"

subsection \<open>HTTP routers\<close>

text \<open>
  An \<^verbatim>\<open>httprouter.Router\<close> as its registrations, in order: method, path, handler.
  \<^verbatim>\<open>Handle\<close> registers a router handle, \<^verbatim>\<open>Handler\<close> a \<^verbatim>\<open>net/http\<close> handler.
\<close>

type_synonym router = "(string \<times> string \<times> go_value) list"

definition httprouter_New :: router where
  "httprouter_New = []"

definition Handle :: "string \<Rightarrow> string \<Rightarrow> go_value \<Rightarrow> router \<Rightarrow> router" where
  "Handle meth path h r = r @ [(meth, path, h)]"

definition Handler :: "string \<Rightarrow> string \<Rightarrow> go_value \<Rightarrow> router \<Rightarrow> router" where
  "Handler meth path h r = r @ [(meth, path, h)]"

fun lookup :: "router \<Rightarrow> string \<Rightarrow> string \<Rightarrow> go_value option" where
  "lookup [] meth path = None"
| "lookup ((m, p, h) # r) meth path =
     (if m = meth \<and> p = path then Some h else lookup r meth path)"

text \<open>
  \<^verbatim>\<open>Register\<close> of http_server.go, lines 11 to 14. Its second statement names the
  package \<^verbatim>\<open>promttp\<close>, as the source has it.
\<close>

definition Register :: "router \<Rightarrow> compile_error + router" where
  "Register r =
     (case resolve http_server_imports ''promttp'' ''Handler'' of
        Inl err \<Rightarrow> Inl err
      | Inr h \<Rightarrow>
          Inr (Handler ''GET'' ''/metrics'' h
                 (Handle ''POST'' ''/v1/login'' (MethodValue ''HandleLoginPost'') r)))"

text \<open>The router of the vault server's HTTP goroutine, lines 90 to 92 of server.go.\<close>

definition router :: "compile_error + router" where
  "router =
     (case resolve server_imports ''promhttp'' ''Handler'' of
        Inl err \<Rightarrow> Inl err
      | Inr h \<Rightarrow> Inr (Handler ''GET'' ''/metrics'' h httprouter_New))"

text \<open>The packages of the import block that create or propagate trace spans.\<close>

definition tracingPackage :: "string \<Rightarrow> bool" where
  "tracingPackage pkg = (pkg \<in> set [''opentracing'', ''grpc_opentracing'', ''jaeger'', ''config''])"

fun fromTracingPackage :: "go_value \<Rightarrow> bool" where
  "fromTracingPackage (PkgCall pkg name) = tracingPackage pkg"
| "fromTracingPackage (MethodValue name) = False"

subsection \<open>The gRPC server\<close>

text \<open>
  \<^verbatim>\<open>grpc.NewServer\<close> with its options, and the services registered on it
  (lines 105 and 106).
\<close>

datatype server_option = UnaryInterceptor go_value

record grpc_server =
  unaryInt :: "go_value option"
  registered :: "string list"

fun applyOption :: "server_option \<Rightarrow> grpc_server \<Rightarrow> grpc_server" where
  "applyOption (UnaryInterceptor i) srv = srv\<lparr>unaryInt := Some i\<rparr>"

definition grpc_NewServer :: "server_option list \<Rightarrow> grpc_server" where
  "grpc_NewServer os = fold applyOption os \<lparr>unaryInt = None, registered = []\<rparr>"

definition RegisterVaultServer :: "grpc_server \<Rightarrow> grpc_server" where
  "RegisterVaultServer srv = srv\<lparr>registered := registered srv @ [''pb.Vault'']\<rparr>"

definition gRPCServer :: "compile_error + grpc_server" where
  "gRPCServer =
     (case resolve server_imports ''grpc_opentracing'' ''UnaryServerInterceptor'' of
        Inl err \<Rightarrow> Inl err
      | Inr i \<Rightarrow> Inr (RegisterVaultServer (grpc_NewServer [UnaryInterceptor i])))"

datatype span_event = StartSpan string | FinishSpan string

text \<open>
  Modelled from the spec: the tracing decorator, which main takes from the library
  \<^verbatim>\<open>grpc_opentracing\<close>. It starts a span named for the server boundary (the method
  called), attaches it as the active span of the call's context, and finishes it when the
  call completes, regardless of outcome. A handler receives the active span of its
  context, if any, and acts on a state of its own.
\<close>

definition UnaryServerInterceptor ::
  "(string option \<Rightarrow> 'rq \<Rightarrow> 't \<Rightarrow> ('rs \<times> go_error option) \<times> 't) \<Rightarrow> string \<Rightarrow> 'rq
     \<Rightarrow> span_event list \<times> 't \<Rightarrow> ('rs \<times> go_error option) \<times> span_event list \<times> 't" where
  "UnaryServerInterceptor handler fullMethod req st =
     (case st of (spans, t) \<Rightarrow>
        (case handler (Some fullMethod) req t of
           (res, t') \<Rightarrow> (res, (spans @ [StartSpan fullMethod]) @ [FinishSpan fullMethod], t')))"

text \<open>
  A unary call on a server: through the opentracing interceptor when the server was built
  with it, straight to the handler otherwise (the program has no other interceptor).
\<close>

definition serveUnary ::
  "grpc_server \<Rightarrow> (string option \<Rightarrow> 'rq \<Rightarrow> 't \<Rightarrow> ('rs \<times> go_error option) \<times> 't) \<Rightarrow> string \<Rightarrow> 'rq
     \<Rightarrow> span_event list \<times> 't \<Rightarrow> ('rs \<times> go_error option) \<times> span_event list \<times> 't" where
  "serveUnary srv handler fullMethod req st =
     (if unaryInt srv = Some (PkgCall ''grpc_opentracing'' ''UnaryServerInterceptor'')
      then UnaryServerInterceptor handler fullMethod req st
      else (case st of (spans, t) \<Rightarrow>
              (case handler None req t of (res, t') \<Rightarrow> (res, spans, t'))))"

text \<open>
  An HTTP request on a router: the handler registered for the method and path, which
  sees the request without an active span; 404 when there is none. No span is started.
\<close>

definition serveHTTP ::
  "router \<Rightarrow> (go_value \<Rightarrow> string option \<Rightarrow> 't \<Rightarrow> int \<times> 't) \<Rightarrow> string \<Rightarrow> string
     \<Rightarrow> span_event list \<times> 't \<Rightarrow> int \<times> span_event list \<times> 't" where
  "serveHTTP r exec meth path st =
     (case st of (spans, t) \<Rightarrow>
        (case lookup r meth path of
           None \<Rightarrow> (404, spans, t)
         | Some h \<Rightarrow> (case exec h None t of (code, t') \<Rightarrow> (code, spans, t'))))"

subsection \<open>initJaeger\<close>

record SamplerConfig =
  Type :: string
  Param :: int

record ReporterConfig =
  LogSpans :: bool

record Configuration =
  Sampler :: SamplerConfig
  Reporter :: ReporterConfig
  ServiceName :: string

text \<open>
  The sampler that the Jaeger client builds from a sampler configuration: type
  \<^verbatim>\<open>"const"\<close> takes the same decision for every trace, to sample when the parameter
  is not zero. The other types (probabilistic, rate limiting, remote) are not used here.
\<close>

datatype sampler = ConstSampler bool | OtherSampler string int

definition newSampler :: "SamplerConfig \<Rightarrow> sampler" where
  "newSampler sc =
     (if Type sc = ''const'' then ConstSampler (Param sc \<noteq> 0)
      else OtherSampler (Type sc) (Param sc))"

text \<open>The sampling decision for a trace id, where the sampler type fixes it.\<close>

fun IsSampled :: "sampler \<Rightarrow> nat \<Rightarrow> bool option" where
  "IsSampled (ConstSampler decision) traceID = Some decision"
| "IsSampled (OtherSampler ty param) traceID = None"

record tracer =
  serviceName :: string
  tracerSampler :: sampler
  logSpans :: bool

datatype closer = Closer

text \<open>
  \<^verbatim>\<open>cfg.NewTracer\<close> belongs to the Jaeger client. Whether it fails is up to the
  environment (\<open>failure\<close>); when it succeeds the tracer is the one the configuration
  describes.
\<close>

definition NewTracer :: "go_error option \<Rightarrow> Configuration \<Rightarrow> go_error + tracer \<times> closer" where
  "NewTracer failure cfg =
     (case failure of
        Some err \<Rightarrow> Inl err
      | None \<Rightarrow>
          Inr (\<lparr>serviceName = ServiceName cfg,
                tracerSampler = newSampler (Sampler cfg),
                logSpans = LogSpans (Reporter cfg)\<rparr>, Closer))"

definition initJaeger :: "go_error option \<Rightarrow> string \<Rightarrow> panic + tracer \<times> closer" where
  "initJaeger failure service =
     (let cfg = \<lparr>Sampler = \<lparr>Type = ''const'', Param = 1\<rparr>,
                 Reporter = \<lparr>LogSpans = False\<rparr>,
                 ServiceName = service\<rparr>
      in case NewTracer failure cfg of
           Inl err \<Rightarrow> Inl (PanicMsg (''ERROR: cannot init Jaeger: '' @ Error err @ [CHR 0x0A]))
         | Inr (tr, cl) \<Rightarrow> Inr (tr, cl))"

subsection \<open>main: the process and its goroutines\<close>

text \<open>
  The three goroutines main starts, and where each one stands: not started yet; running
  up to its blocking call (the signal watcher waiting on its channel, the HTTP goroutine
  inside \<^verbatim>\<open>http.ListenAndServe\<close>, the gRPC goroutine about to call
  \<^verbatim>\<open>net.Listen\<close>); the gRPC goroutine inside \<^verbatim>\<open>Serve\<close>; blocked in its send
  on \<^verbatim>\<open>errChan\<close>; returned.
\<close>

datatype task = SignalWatcher | HTTPTransport | GRPCTransport

datatype task_status =
    NotLaunched
  | Running
  | Serving
  | Sending "go_error option"
  | Returned

datatype signal = SIGINT | SIGTERM

text \<open>\<^verbatim>\<open>fmt.Errorf("%s", sig)\<close>: an error whose message is the signal's name.\<close>

fun signalError :: "signal \<Rightarrow> go_error" where
  "signalError SIGINT = ErrorString ''interrupt''"
| "signalError SIGTERM = ErrorString ''terminated''"

datatype log_line = Info string | Fatal "go_error option"

text \<open>The flags of the command line, and whether the Jaeger client fails to build a tracer.\<close>

record env =
  httpAddr :: string
  gRPCAddr :: string
  console :: bool
  tracerFailure :: "go_error option"

text \<open>
  The statement main executes next, among those that matter to its goroutines: the
  \<^verbatim>\<open>go\<close> statement of the signal watcher (line 70), the call of
  \<^verbatim>\<open>initJaeger\<close> (line 82), the \<^verbatim>\<open>go\<close> statements of the HTTP and gRPC
  goroutines (lines 88 and 96), the log of the gRPC address (line 110), and the receive
  with the fatal log (line 111).
\<close>

datatype main_pc = AtGoSignal | AtInitJaeger | AtGoHTTP | AtGoGRPC | AtInfo | AtReceive

text \<open>
  The process. \<^verbatim>\<open>errChan\<close> is unbuffered, so a value is with its sender until main
  receives it: \<open>sendq\<close> holds the blocked senders in the order they arrived, and
  \<open>offered\<close> every send ever started, in that order. \<open>received\<close> are the values main
  has read from the channel, \<open>served\<close> counts the requests each transport has handled.
  The process is over once \<open>exitCode\<close> is set: 1 by \<^verbatim>\<open>logger.Fatal\<close>, 2 by a
  panic.
\<close>

record proc =
  flags :: env
  pc :: main_pc
  tasks :: "task \<Rightarrow> task_status"
  served :: "task \<Rightarrow> nat"
  sendq :: "(task \<times> go_error option) list"
  offered :: "(task \<times> go_error option) list"
  received :: "go_error option list"
  logged :: "log_line list"
  globalTracer :: "tracer option"
  panicked :: "panic option"
  exitCode :: "int option"

definition start :: "env \<Rightarrow> proc" where
  "start e = \<lparr>flags = e, pc = AtGoSignal, tasks = (\<lambda>t. NotLaunched), served = (\<lambda>t. 0),
             sendq = [], offered = [], received = [], logged = [],
             globalTracer = None, panicked = None, exitCode = None\<rparr>"

text \<open>The statement \<^verbatim>\<open>go func() {...}()\<close>.\<close>

definition go :: "task \<Rightarrow> proc \<Rightarrow> proc" where
  "go t p = p\<lparr>tasks := (tasks p)(t := Running)\<rparr>"

text \<open>
  main, one statement at a time. A panic in \<^verbatim>\<open>initJaeger\<close> ends the process
  there; otherwise the tracer becomes the global tracer (lines 83 to 86, which also defer
  the closer and open the span named server, follow in the same step). The receive blocks
  while no sender is waiting; otherwise it takes the value of the first blocked sender,
  logs it at fatal level, and \<^verbatim>\<open>logger.Fatal\<close> exits.
\<close>

definition main :: "proc \<Rightarrow> proc" where
  "main p =
     (case pc p of
        AtGoSignal \<Rightarrow> (go SignalWatcher p)\<lparr>pc := AtInitJaeger\<rparr>
      | AtInitJaeger \<Rightarrow>
          (case initJaeger (tracerFailure (flags p)) ''vaultService'' of
             Inl pn \<Rightarrow> p\<lparr>panicked := Some pn, exitCode := Some 2\<rparr>
           | Inr (tr, cl) \<Rightarrow> p\<lparr>globalTracer := Some tr, pc := AtGoHTTP\<rparr>)
      | AtGoHTTP \<Rightarrow> (go HTTPTransport p)\<lparr>pc := AtGoGRPC\<rparr>
      | AtGoGRPC \<Rightarrow> (go GRPCTransport p)\<lparr>pc := AtInfo\<rparr>
      | AtInfo \<Rightarrow> p\<lparr>logged := logged p @ [Info (gRPCAddr (flags p))], pc := AtReceive\<rparr>
      | AtReceive \<Rightarrow>
          (case sendq p of
             [] \<Rightarrow> p
           | (t, v) # q \<Rightarrow>
               p\<lparr>tasks := (tasks p)(t := Returned),
                 sendq := q,
                 received := received p @ [v],
                 logged := logged p @ [Fatal v],
                 exitCode := Some 1\<rparr>))"

text \<open>The statement \<^verbatim>\<open>errChan <- v\<close> of goroutine \<open>t\<close>: it blocks, its value queued.\<close>

definition send :: "task \<Rightarrow> go_error option \<Rightarrow> proc \<Rightarrow> proc" where
  "send t v p =
     p\<lparr>tasks := (tasks p)(t := Sending v),
       sendq := sendq p @ [(t, v)],
       offered := offered p @ [(t, v)]\<rparr>"

text \<open>A transport handles requests while it is inside its serving call.\<close>

definition serving :: "proc \<Rightarrow> task \<Rightarrow> bool" where
  "serving p t =
     ((t = HTTPTransport \<and> tasks p t = Running) \<or> (t = GRPCTransport \<and> tasks p t = Serving))"

text \<open>
  What can happen next: main executes its next statement; a signal reaches the watcher;
  \<^verbatim>\<open>http.ListenAndServe\<close> returns its error; \<^verbatim>\<open>net.Listen\<close> fails or
  succeeds; \<^verbatim>\<open>Serve\<close> returns; a transport handles a request. Nothing happens in
  a process that has exited.
\<close>

datatype action =
    Main
  | Signal signal
  | ListenAndServeReturns go_error
  | ListenFails go_error
  | ListenSucceeds
  | ServeReturns "go_error option"
  | Request task

fun step :: "action \<Rightarrow> proc \<Rightarrow> proc" where
  "step a p =
     (if exitCode p \<noteq> None then p
      else case a of
        Main \<Rightarrow> main p
      | Signal sg \<Rightarrow>
          if tasks p SignalWatcher = Running
          then send SignalWatcher (Some (signalError sg)) p else p
      | ListenAndServeReturns err \<Rightarrow>
          if tasks p HTTPTransport = Running then send HTTPTransport (Some err) p else p
      | ListenFails err \<Rightarrow>
          if tasks p GRPCTransport = Running then send GRPCTransport (Some err) p else p
      | ListenSucceeds \<Rightarrow>
          if tasks p GRPCTransport = Running
          then p\<lparr>tasks := (tasks p)(GRPCTransport := Serving),
                 logged := logged p @ [Info (''grpc:'' @ gRPCAddr (flags p))]\<rparr>
          else p
      | ServeReturns r \<Rightarrow>
          if tasks p GRPCTransport = Serving then send GRPCTransport r p else p
      | Request t \<Rightarrow>
          if serving p t then p\<lparr>served := (served p)(t := Suc (served p t))\<rparr> else p)"

declare step.simps [simp del]

text \<open>The process after a sequence of such events, from left to right.\<close>

fun run :: "action list \<Rightarrow> proc \<Rightarrow> proc" where
  "run [] p = p"
| "run (a # as) p = run as (step a p)"

subsection \<open>Test doubles\<close>

text \<open>
  A decoder that fails on a body that is not JSON (\<open>None\<close>) and yields the login
  request otherwise; login endpoints that count their calls, one rejecting every login
  with the error of the spec's scenario, one accepting every login.
\<close>

definition stubDecode ::
  "unit \<Rightarrow> (string \<times> string) option \<Rightarrow> (string \<times> string, string) any \<times> go_error option" where
  "stubDecode c r =
     (case r of
        None \<Rightarrow> (NilVal, Some (ErrorString ''unexpected end of JSON input''))
      | Some q \<Rightarrow> (LoginRequestVal q, None))"

definition stubPackage ::
  "(unit, (string \<times> string) option, string \<times> string, string) package" where
  "stubPackage =
     \<lparr>decodeLoginRequest = stubDecode,
      encodeLoginResponse = (\<lambda>tok. JObject [(''token'', JString tok)])\<rparr>"

definition failingLogin ::
  "unit \<Rightarrow> string \<times> string \<Rightarrow> nat
     \<Rightarrow> ((string \<times> string, string) any \<times> go_error option) \<times> nat" where
  "failingLogin c q calls = ((NilVal, Some (ErrorString ''invalid credentials'')), Suc calls)"

definition acceptingLogin ::
  "unit \<Rightarrow> string \<times> string \<Rightarrow> nat
     \<Rightarrow> ((string \<times> string, string) any \<times> go_error option) \<times> nat" where
  "acceptingLogin c q calls = ((LoginResponseVal (fst q @ ''-token''), None), Suc calls)"

definition failingEndpoints :: "(unit, string \<times> string, string, nat) Endpoints" where
  "failingEndpoints = \<lparr>Ctx = (), LoginEndpoint = failingLogin\<rparr>"

definition acceptingEndpoints :: "(unit, string \<times> string, string, nat) Endpoints" where
  "acceptingEndpoints = \<lparr>Ctx = (), LoginEndpoint = acceptingLogin\<rparr>"

text \<open>Environments: one where the tracer is built, one where the Jaeger client fails.\<close>

definition goodEnv :: env where
  "goodEnv = \<lparr>httpAddr = '':8086'', gRPCAddr = '':8085'', console = False,
              tracerFailure = None\<rparr>"

definition badEnv :: env where
  "badEnv = \<lparr>httpAddr = '':8086'', gRPCAddr = '':8085'', console = False,
             tracerFailure = Some (ErrorString ''dial udp: lookup localhost: no such host'')\<rparr>"

subsection \<open>Vocabulary of the statements\<close>

text \<open>The status codes of the client-error class, 4xx.\<close>

definition clientClass :: "int \<Rightarrow> bool" where
  "clientClass code = (400 \<le> code \<and> code < 500)"

text \<open>The label assignment of the series for a method and an outcome.\<close>

definition seriesOf :: "svc_method \<Rightarrow> go_error option \<Rightarrow> labels" where
  "seriesOf m err = [(''method'', methodName m), (''error'', errorLabel err)]"

subsection \<open>Invariant of the process\<close>

text \<open>A goroutine that has reached its send: blocked in it, or returned after it.\<close>

definition halted :: "task_status \<Rightarrow> bool" where
  "halted st = (case st of Sending v \<Rightarrow> True | Returned \<Rightarrow> True | _ \<Rightarrow> False)"

text \<open>
  What holds of the channel at every moment: the process is alive, ended by the fatal log
  or ended by a panic; until the fatal log nothing has been read and every value sent is
  still queued; once the fatal log has ended the process, the one value read is the first
  one sent and the last log line reports it; no goroutine sends twice, and the goroutines
  that have sent are the halted ones.
\<close>

definition coordinated :: "proc \<Rightarrow> bool" where
  "coordinated p =
     ((exitCode p = None \<or> exitCode p = Some 1 \<or> exitCode p = Some 2)
    \<and> (exitCode p \<noteq> Some 1 \<longrightarrow> sendq p = offered p \<and> received p = [])
    \<and> (exitCode p = Some 1 \<longrightarrow>
          (\<exists>t v. offered p = (t, v) # sendq p \<and> received p = [v]
                 \<and> logged p \<noteq> [] \<and> last (logged p) = Fatal v))
    \<and> distinct (map fst (offered p))
    \<and> (\<forall>t. t \<in> fst ` set (offered p) \<longleftrightarrow> halted (tasks p t)))"

text \<open>
  What holds of main's progress at every moment: a goroutine is not started before main
  has passed its \<^verbatim>\<open>go\<close> statement and is started after; a panic is the one of
  \<^verbatim>\<open>initJaeger\<close>, stops main at that call, and is the only way to exit code 2;
  main gets past that call only when the tracer is built; and the fatal log is the one
  of the receive.
\<close>

definition staged :: "proc \<Rightarrow> bool" where
  "staged p =
     ((tasks p SignalWatcher = NotLaunched \<longleftrightarrow> pc p = AtGoSignal)
    \<and> (tasks p HTTPTransport = NotLaunched \<longleftrightarrow> pc p \<in> {AtGoSignal, AtInitJaeger, AtGoHTTP})
    \<and> (tasks p GRPCTransport = NotLaunched
          \<longleftrightarrow> pc p \<in> {AtGoSignal, AtInitJaeger, AtGoHTTP, AtGoGRPC})
    \<and> (exitCode p = Some 2 \<longleftrightarrow> panicked p \<noteq> None)
    \<and> (panicked p \<noteq> None \<longrightarrow>
          pc p = AtInitJaeger
        \<and> (\<exists>err. tracerFailure (flags p) = Some err
               \<and> panicked p = Some (PanicMsg (''ERROR: cannot init Jaeger: '' @ Error err
                                                 @ [CHR 0x0A]))))
    \<and> (tracerFailure (flags p) \<noteq> None \<longrightarrow> pc p \<in> {AtGoSignal, AtInitJaeger})
    \<and> (exitCode p = Some 1 \<longrightarrow> pc p = AtReceive))"

subsection \<open>Runs of the server\<close>

text \<open>
  A run with a tracer: main completes its startup, the gRPC listener binds, the HTTP
  listener fails to bind, then an interrupt arrives. The state after these events, and
  the state after main's receive.
\<close>

definition addrInUse :: go_error where
  "addrInUse = ErrorString ''listen tcp :8086: bind: address already in use''"

definition startup :: "action list" where
  "startup = [Main, Main, Main, Main, Main]"

definition schedule :: "action list" where
  "schedule = startup @ [ListenSucceeds, ListenAndServeReturns addrInUse, Signal SIGINT]"

definition jaegerTracer :: tracer where
  "jaegerTracer = \<lparr>serviceName = ''vaultService'', tracerSampler = ConstSampler True,
                    logSpans = False\<rparr>"

definition afterStartup :: proc where
  "afterStartup =
     \<lparr>flags = goodEnv, pc = AtReceive,
      tasks = (\<lambda>t. Running), served = (\<lambda>t. 0),
      sendq = [], offered = [], received = [], logged = [Info '':8085''],
      globalTracer = Some jaegerTracer, panicked = None, exitCode = None\<rparr>"

definition afterSchedule :: proc where
  "afterSchedule =
     afterStartup
       \<lparr>tasks := (\<lambda>t. case t of
                    SignalWatcher \<Rightarrow> Sending (Some (ErrorString ''interrupt''))
                  | HTTPTransport \<Rightarrow> Sending (Some addrInUse)
                  | GRPCTransport \<Rightarrow> Serving),
        sendq := [(HTTPTransport, Some addrInUse),
                  (SignalWatcher, Some (ErrorString ''interrupt''))],
        offered := [(HTTPTransport, Some addrInUse),
                    (SignalWatcher, Some (ErrorString ''interrupt''))],
        logged := [Info '':8085'', Info ''grpc::8085'']\<rparr>"

definition afterReceive :: proc where
  "afterReceive =
     afterSchedule
       \<lparr>tasks := (tasks afterSchedule)(HTTPTransport := Returned),
        sendq := [(SignalWatcher, Some (ErrorString ''interrupt''))],
        received := [Some addrInUse],
        logged := [Info '':8085'', Info ''grpc::8085'', Fatal (Some addrInUse)],
        exitCode := Some 1\<rparr>"

text \<open>
  A run without a tracer: an interrupt reaches the signal watcher while main is still
  starting, and \<^verbatim>\<open>initJaeger\<close> panics. The state after these events.
\<close>

definition early :: "action list" where
  "early = [Main, Signal SIGINT, Main]"

definition afterPanic :: proc where
  "afterPanic =
     \<lparr>flags = badEnv, pc = AtInitJaeger,
      tasks = (\<lambda>t. case t of
                 SignalWatcher \<Rightarrow> Sending (Some (ErrorString ''interrupt''))
               | HTTPTransport \<Rightarrow> NotLaunched
               | GRPCTransport \<Rightarrow> NotLaunched),
      served = (\<lambda>t. 0),
      sendq = [(SignalWatcher, Some (ErrorString ''interrupt''))],
      offered = [(SignalWatcher, Some (ErrorString ''interrupt''))],
      received = [], logged = [],
      globalTracer = None,
      panicked = Some (PanicMsg (''ERROR: cannot init Jaeger: dial udp: lookup localhost: no such host''
                                   @ [CHR 0x0A])),
      exitCode = Some 2\<rparr>"

section \<open>The HTTP binder's login handler\<close>

lemmas writer_defs =
  respondError_def respondSuccess_def Encode_def WriteHeader_def Header_Set_def
  newResponseWriter_def StatusText_def

text \<open>
  C3. When the login endpoint returns an error, the handler answers 500 with the error
  envelope, and the claim expects the error's message under \<open>error\<close>. The handler passes
  the error value itself to the encoder, not its message. For the request and the
  rejecting capability of the spec's scenario, whose error is the plain error
  \<open>invalid credentials\<close>, the status is 500 and the body holds the status code and the
  status text, but under \<open>error\<close> it holds the empty object: the body is not the one the
  claim gives.
\<close>

theorem HandleLoginPost_endpoint_error_body:
  "fst (HandleLoginPost stubPackage failingEndpoints newResponseWriter (Some (''a'', ''p'')) 0)
     = Inr (respondError newResponseWriter 500 (ErrorString ''invalid credentials''))
   \<and> status (respondError newResponseWriter 500 (ErrorString ''invalid credentials'')) = Some 500
   \<and> body (respondError newResponseWriter 500 (ErrorString ''invalid credentials''))
       = [JObject [(''error'', JObject []),
                   (''status_code'', JNumber 500),
                   (''status_text'', JString ''Internal Server Error'')]]
   \<and> body (respondError newResponseWriter 500 (ErrorString ''invalid credentials''))
       \<noteq> [JObject [(''error'', JString ''invalid credentials''),
                   (''status_code'', JNumber 500),
                   (''status_text'', JString ''Internal Server Error'')]]"
  by (simp add: HandleLoginPost_def stubPackage_def stubDecode_def failingEndpoints_def
      failingLogin_def writer_defs)

text \<open>
  C4, as claimed: a request whose body fails to decode is answered with a client-class
  error. It is not: for a body that is not JSON the handler answers 500, which is not a
  4xx status.
\<close>

theorem HandleLoginPost_decode_failure_status_counterexample:
  "snd (decodeLoginRequest stubPackage (Ctx acceptingEndpoints) None) \<noteq> None
   \<and> fst (HandleLoginPost stubPackage acceptingEndpoints newResponseWriter None 0)
       = Inr (respondError newResponseWriter 500 (ErrorString ''unexpected end of JSON input''))
   \<and> status (respondError newResponseWriter 500 (ErrorString ''unexpected end of JSON input''))
       = Some 500
   \<and> \<not> clientClass 500"
  by (simp add: HandleLoginPost_def stubPackage_def stubDecode_def acceptingEndpoints_def
      writer_defs clientClass_def)

text \<open>
  C4, amended: for every request whose body fails to decode, the handler answers with
  status 500 and the error envelope built from the decoding error, and returns without
  invoking the login endpoint: whatever function the endpoint is, the outcome is the
  same and the state behind the endpoint is untouched.
\<close>

theorem HandleLoginPost_decode_failure:
  assumes "decodeLoginRequest pkg (Ctx e) r = (v, Some err)"
  shows "HandleLoginPost pkg (e\<lparr>LoginEndpoint := f\<rparr>) w r s = (Inr (respondError w 500 err), s)
       \<and> (status w = None \<longrightarrow>
            status (respondError w 500 err) = Some 500
          \<and> body (respondError w 500 err) =
              body w @ [JObject [(''error'', marshalError err),
                                 (''status_code'', JNumber 500),
                                 (''status_text'', JString ''Internal Server Error'')]])"
  using assms by (simp add: HandleLoginPost_def writer_defs)

theorem HandleLoginPost_decode_failure_witness:
  "decodeLoginRequest stubPackage (Ctx acceptingEndpoints) None
     = (NilVal, Some (ErrorString ''unexpected end of JSON input''))
   \<and> status newResponseWriter = None
   \<and> HandleLoginPost stubPackage acceptingEndpoints newResponseWriter None 0
     = (Inr (respondError newResponseWriter 500 (ErrorString ''unexpected end of JSON input'')), 0)
   \<and> status (respondError newResponseWriter 500 (ErrorString ''unexpected end of JSON input''))
     = Some 500"
proof -
  have d: "decodeLoginRequest stubPackage (Ctx acceptingEndpoints) None
     = (NilVal, Some (ErrorString ''unexpected end of JSON input''))"
    by (simp add: stubPackage_def stubDecode_def)
  have n: "status newResponseWriter = None"
    by (simp add: newResponseWriter_def)
  show ?thesis
    using d n HandleLoginPost_decode_failure [OF d, of acceptingLogin newResponseWriter 0]
    by (simp add: acceptingEndpoints_def)
qed

text \<open>
  C9. Suppose the decoder returns a login request whenever it returns no error, and the
  endpoint a login response whenever it returns no error. Then the handler never
  panics: it always leaves a response. And a request that decodes and whose endpoint
  call succeeds gets the success response: the encoded login response, with status 200
  when nothing had been written before.
\<close>

theorem HandleLoginPost_no_panic:
  assumes dec: "\<And>r v. decodeLoginRequest pkg (Ctx e) r = (v, None) \<Longrightarrow> \<exists>q. v = LoginRequestVal q"
      and ep: "\<And>q s v s'. LoginEndpoint e (Ctx e) q s = ((v, None), s')
                 \<Longrightarrow> \<exists>p. v = LoginResponseVal p"
  shows "(\<exists>w'. fst (HandleLoginPost pkg e w r s) = Inr w')
       \<and> (\<forall>q p s'. decodeLoginRequest pkg (Ctx e) r = (LoginRequestVal q, None)
              \<and> LoginEndpoint e (Ctx e) q s = ((LoginResponseVal p, None), s')
            \<longrightarrow> HandleLoginPost pkg e w r s
                  = (Inr (respondSuccess (encodeLoginResponse pkg) w p), s')
                \<and> (status w = None \<longrightarrow>
                      status (respondSuccess (encodeLoginResponse pkg) w p) = Some 200
                    \<and> body (respondSuccess (encodeLoginResponse pkg) w p)
                        = body w @ [encodeLoginResponse pkg p]))"
proof -
  obtain v derr where d: "decodeLoginRequest pkg (Ctx e) r = (v, derr)"
    by (cases "decodeLoginRequest pkg (Ctx e) r")
  show ?thesis
  proof (cases derr)
    case (Some err)
    with d show ?thesis by (simp add: HandleLoginPost_def)
  next
    case None
    with d dec obtain q where v: "v = LoginRequestVal q" by blast
    obtain u eerr s' where c: "LoginEndpoint e (Ctx e) q s = ((u, eerr), s')"
      by (metis surj_pair)
    show ?thesis
    proof (cases eerr)
      case (Some err)
      with d None v c show ?thesis by (simp add: HandleLoginPost_def)
    next
      case ok: None
      with c ep obtain p where u: "u = LoginResponseVal p" by blast
      from d None v c ok u show ?thesis
        by (simp add: HandleLoginPost_def writer_defs)
    qed
  qed
qed

theorem HandleLoginPost_no_panic_witness:
  "decodeLoginRequest stubPackage (Ctx acceptingEndpoints) (Some (''a'', ''p''))
       = (LoginRequestVal (''a'', ''p''), None)
   \<and> LoginEndpoint acceptingEndpoints (Ctx acceptingEndpoints) (''a'', ''p'') 0
       = ((LoginResponseVal ''a-token'', None), 1)
   \<and> status newResponseWriter = None
   \<and> HandleLoginPost stubPackage acceptingEndpoints newResponseWriter (Some (''a'', ''p'')) 0
       = (Inr (respondSuccess (encodeLoginResponse stubPackage) newResponseWriter ''a-token''), 1)
   \<and> status (respondSuccess (encodeLoginResponse stubPackage) newResponseWriter ''a-token'')
       = Some 200
   \<and> body (respondSuccess (encodeLoginResponse stubPackage) newResponseWriter ''a-token'')
       = [JObject [(''token'', JString ''a-token'')]]"
proof -
  have dec: "\<And>r v. decodeLoginRequest stubPackage (Ctx acceptingEndpoints) r = (v, None)
        \<Longrightarrow> \<exists>q. v = LoginRequestVal q"
    by (auto simp: stubPackage_def stubDecode_def split: option.splits)
  have ep: "\<And>q s v s'. LoginEndpoint acceptingEndpoints (Ctx acceptingEndpoints) q s
        = ((v, None), s') \<Longrightarrow> \<exists>p. v = LoginResponseVal p"
    by (auto simp: acceptingEndpoints_def acceptingLogin_def)
  have d: "decodeLoginRequest stubPackage (Ctx acceptingEndpoints) (Some (''a'', ''p''))
       = (LoginRequestVal (''a'', ''p''), None)"
    by (simp add: stubPackage_def stubDecode_def)
  have c: "LoginEndpoint acceptingEndpoints (Ctx acceptingEndpoints) (''a'', ''p'') 0
       = ((LoginResponseVal ''a-token'', None), 1)"
    by (simp add: acceptingEndpoints_def acceptingLogin_def)
  have n: "status newResponseWriter = None"
    by (simp add: newResponseWriter_def)
  have b: "body newResponseWriter = []"
    by (simp add: newResponseWriter_def)
  from HandleLoginPost_no_panic [of stubPackage acceptingEndpoints newResponseWriter
      "Some (''a'', ''p'')" 0, OF dec ep] d c n b
  have "HandleLoginPost stubPackage acceptingEndpoints newResponseWriter (Some (''a'', ''p'')) 0
       = (Inr (respondSuccess (encodeLoginResponse stubPackage) newResponseWriter ''a-token''), 1)
     \<and> status (respondSuccess (encodeLoginResponse stubPackage) newResponseWriter ''a-token'')
       = Some 200
     \<and> body (respondSuccess (encodeLoginResponse stubPackage) newResponseWriter ''a-token'')
       = [encodeLoginResponse stubPackage ''a-token'']"
    by simp
  moreover have "encodeLoginResponse stubPackage ''a-token'' = JObject [(''token'', JString ''a-token'')]"
    by (simp add: stubPackage_def)
  ultimately show ?thesis
    using d c n by simp
qed

section \<open>The middleware chain\<close>

text \<open>A call on the composed service, written out: the result and every effect.\<close>

lemma call_svc:
  assumes "perform cap m a (capState w) = ((v, err), s')"
  shows "call cap (svc c) m a w =
    ((v, err),
     w\<lparr>capState := s',
       clock := clock w + elapsed cap m a (capState w),
       trace := trace w @ [Enter Instrumenting m, Enter Logging m, Performed m,
                           Leave Logging m err, Leave Instrumenting m err],
       logs := logs w @ [\<lparr>lr_method = methodName m,
                          lr_took = elapsed cap m a (capState w), lr_err = err\<rparr>],
       counterVals := (counterVals w)
         (''request_count'' := (counterVals w ''request_count'')
            (seriesOf m err := counterVals w ''request_count'' (seriesOf m err) + 1)),
       summaryObs := (summaryObs w)
         (''request_latency_microseconds'' := (summaryObs w ''request_latency_microseconds'')
            (seriesOf m err := summaryObs w ''request_latency_microseconds'' (seriesOf m err)
               @ [int (elapsed cap m a (capState w))]),
          ''count_result'' := (summaryObs w ''count_result'')
            ([] := summaryObs w ''count_result'' [] @ [numeric cap v]))\<rparr>)"
  using assms
  by (simp add: svc_def emit_def Add_def Observe_def With_def requestCount_def requestLatency_def
      countResult_def NewCounterFrom_def NewSummaryFrom_def fieldKeys_def seriesOf_def Let_def)

text \<open>
  C5. The composed service is the capability wrapped by the logging middleware, wrapped in
  turn by the instrumenting middleware. On every call the result is the capability's own,
  and the layers act in stack order: the instrumenting layer takes the call first, then
  the logging layer, then the capability runs; the logging layer sees the result first
  and the instrumenting layer last.
\<close>

theorem svc_stack_discipline:
  "svc c = InstrumentingMiddleware requestCount requestLatency countResult
             (LoggingMiddleware (newLogger c) NewService)
   \<and> fst (call cap (svc c) m a w) = fst (perform cap m a (capState w))
   \<and> trace (snd (call cap (svc c) m a w)) =
       trace w @ [Enter Instrumenting m, Enter Logging m, Performed m,
                  Leave Logging m (snd (fst (perform cap m a (capState w)))),
                  Leave Instrumenting m (snd (fst (perform cap m a (capState w))))]"
proof -
  obtain v err s' where p: "perform cap m a (capState w) = ((v, err), s')"
    by (metis surj_pair)
  show ?thesis
    by (simp add: call_svc [OF p] p) (simp add: svc_def)
qed

text \<open>
  C7. The request counter and the latency summary are built with exactly the labels
  method and error, the result summary with none. Each call on the composed service,
  whether it succeeds or fails, adds exactly one to the counter series of its method and
  outcome and leaves every other series of the counter as it was; the latency summary
  gets exactly one more observation, in the series of the same labels, and no other.
\<close>

theorem svc_counts_each_call_once:
  "labelNames requestCount = [''method'', ''error'']
   \<and> labelNames requestLatency = [''method'', ''error'']
   \<and> labelNames countResult = []
   \<and> kind requestCount = Counter \<and> kind requestLatency = Summary \<and> kind countResult = Summary
   \<and> counterVals (snd (call cap (svc c) m a w)) ''request_count'' =
       (counterVals w ''request_count'')
         (seriesOf m (snd (fst (perform cap m a (capState w)))) :=
            counterVals w ''request_count''
              (seriesOf m (snd (fst (perform cap m a (capState w))))) + 1)
   \<and> summaryObs (snd (call cap (svc c) m a w)) ''request_latency_microseconds'' =
       (summaryObs w ''request_latency_microseconds'')
         (seriesOf m (snd (fst (perform cap m a (capState w)))) :=
            summaryObs w ''request_latency_microseconds''
              (seriesOf m (snd (fst (perform cap m a (capState w)))))
              @ [int (elapsed cap m a (capState w))])"
proof -
  obtain v err s' where p: "perform cap m a (capState w) = ((v, err), s')"
    by (metis surj_pair)
  have names: "labelNames requestCount = [''method'', ''error'']
     \<and> labelNames requestLatency = [''method'', ''error'']
     \<and> labelNames countResult = []
     \<and> kind requestCount = Counter \<and> kind requestLatency = Summary \<and> kind countResult = Summary"
    by (simp add: requestCount_def requestLatency_def countResult_def NewCounterFrom_def
        NewSummaryFrom_def fieldKeys_def)
  show ?thesis
    using names by (simp add: call_svc [OF p] p)
qed

section \<open>The transports\<close>

lemma gRPCServer_value:
  "gRPCServer = Inr \<lparr>unaryInt = Some (PkgCall ''grpc_opentracing'' ''UnaryServerInterceptor''),
                     registered = [''pb.Vault'']\<rparr>"
  by (simp add: gRPCServer_def resolve_def server_imports_def grpc_NewServer_def
      RegisterVaultServer_def)

lemma router_value: "router = Inr [(''GET'', ''/metrics'', PkgCall ''promhttp'' ''Handler'')]"
  by (simp add: router_def resolve_def server_imports_def Handler_def httprouter_New_def)

text \<open>
  C6. The gRPC server is built with the opentracing unary server interceptor, so every
  unary call on it starts a span for the method called and finishes it when the handler
  returns, whatever the handler returns. The HTTP router holds one route, the metrics
  handler, which comes from no tracing package, and serving a request on it starts no span.
\<close>

theorem tracing_at_rpc_boundary_only:
  "gRPCServer = Inr \<lparr>unaryInt = Some (PkgCall ''grpc_opentracing'' ''UnaryServerInterceptor''),
                     registered = [''pb.Vault'']\<rparr>
   \<and> serveUnary \<lparr>unaryInt = Some (PkgCall ''grpc_opentracing'' ''UnaryServerInterceptor''),
                  registered = [''pb.Vault'']\<rparr> handler fullMethod req (spans, t)
       = (fst (handler (Some fullMethod) req t),
          spans @ [StartSpan fullMethod, FinishSpan fullMethod],
          snd (handler (Some fullMethod) req t))
   \<and> router = Inr [(''GET'', ''/metrics'', PkgCall ''promhttp'' ''Handler'')]
   \<and> \<not> fromTracingPackage (PkgCall ''promhttp'' ''Handler'')
   \<and> fst (snd (serveHTTP [(''GET'', ''/metrics'', PkgCall ''promhttp'' ''Handler'')]
                  serve meth path (spans, t))) = spans"
  by (simp add: gRPCServer_value router_value serveUnary_def UnaryServerInterceptor_def
      serveHTTP_def tracingPackage_def split: prod.splits option.splits)

text \<open>
  C8. The vault server's router serves GET /metrics with the Prometheus handler. The
  gateway's Register is meant to install the same handler next to POST /v1/login, but it
  names the package \<open>promttp\<close>, which the file does not import (it imports
  \<open>promhttp\<close>): the name is undefined and Register yields no router.
\<close>

theorem Register_names_unknown_package:
  "Register httprouter_New = Inl (Undefined ''promttp'')
   \<and> ''promttp'' \<notin> set http_server_imports
   \<and> ''promhttp'' \<in> set http_server_imports
   \<and> router = Inr [(''GET'', ''/metrics'', PkgCall ''promhttp'' ''Handler'')]
   \<and> lookup [(''GET'', ''/metrics'', PkgCall ''promhttp'' ''Handler'')] ''GET'' ''/metrics''
       = Some (PkgCall ''promhttp'' ''Handler'')"
  by (simp add: Register_def resolve_def http_server_imports_def router_value)

section \<open>Startup and shutdown\<close>

subsection \<open>The invariants hold throughout\<close>

lemma run_after_exit: "exitCode p \<noteq> None \<Longrightarrow> run as p = p"
  by (induction as arbitrary: p) (simp_all add: step.simps)

lemma run_snoc: "run (as @ [a]) p = step a (run as p)"
  by (induction as arbitrary: p) simp_all

lemma run_append: "run (as @ bs) p = run bs (run as p)"
  by (induction as arbitrary: p) simp_all

lemma initJaeger_cases:
  "initJaeger f service =
     (case f of
        Some err \<Rightarrow> Inl (PanicMsg (''ERROR: cannot init Jaeger: '' @ Error err @ [CHR 0x0A]))
      | None \<Rightarrow> Inr (\<lparr>serviceName = service, tracerSampler = ConstSampler True,
                       logSpans = False\<rparr>, Closer))"
  by (simp add: initJaeger_def NewTracer_def newSampler_def split: option.splits)

lemma flags_main: "flags (main p) = flags p"
  by (simp add: main_def go_def initJaeger_cases
      split: main_pc.splits option.splits list.splits)

lemma flags_step: "flags (step a p) = flags p"
  by (cases a) (simp_all add: step.simps send_def flags_main)

lemma flags_run: "flags (run as p) = flags p"
  by (induction as arbitrary: p) (simp_all add: flags_step)

lemma coordinated_fatal:
  "coordinated p \<Longrightarrow> exitCode p = Some 1 \<Longrightarrow>
     \<exists>t v. offered p = (t, v) # sendq p \<and> received p = [v]
          \<and> logged p \<noteq> [] \<and> last (logged p) = Fatal v"
  by (simp add: coordinated_def)

lemma coordinated_unread:
  "coordinated p \<Longrightarrow> exitCode p \<noteq> Some 1 \<Longrightarrow> sendq p = offered p \<and> received p = []"
  by (simp add: coordinated_def)

lemma coordinated_distinct: "coordinated p \<Longrightarrow> distinct (map fst (offered p))"
  by (simp add: coordinated_def)

lemma coordinated_exit:
  "coordinated p \<Longrightarrow> exitCode p = None \<or> exitCode p = Some 1 \<or> exitCode p = Some 2"
  by (simp add: coordinated_def)

lemma coordinated_start: "coordinated (start e)"
  by (simp add: coordinated_def start_def halted_def)

lemma coordinated_send:
  assumes "coordinated p" "exitCode p = None" "\<not> halted (tasks p t)"
  shows "coordinated (send t v p)"
  using assms by (auto simp: coordinated_def send_def halted_def)

lemma coordinated_go:
  assumes "coordinated p" "exitCode p = None" "tasks p t = NotLaunched"
  shows "coordinated ((go t p)\<lparr>pc := c\<rparr>)"
  using assms by (auto simp: coordinated_def go_def halted_def)

lemma coordinated_main:
  assumes c: "coordinated p" and alive: "exitCode p = None" and s: "staged p"
  shows "coordinated (main p)"
proof (cases "pc p")
  case AtGoSignal
  with s have "tasks p SignalWatcher = NotLaunched" by (simp add: staged_def)
  with AtGoSignal c alive show ?thesis by (simp add: main_def coordinated_go)
next
  case AtInitJaeger
  with c alive show ?thesis
    by (auto simp: main_def initJaeger_cases coordinated_def split: option.splits)
next
  case AtGoHTTP
  with s have "tasks p HTTPTransport = NotLaunched" by (simp add: staged_def)
  with AtGoHTTP c alive show ?thesis by (simp add: main_def coordinated_go)
next
  case AtGoGRPC
  with s have "tasks p GRPCTransport = NotLaunched" by (simp add: staged_def)
  with AtGoGRPC c alive show ?thesis by (simp add: main_def coordinated_go)
next
  case AtInfo
  with c alive show ?thesis by (auto simp: main_def coordinated_def)
next
  case AtReceive
  show ?thesis
  proof (cases "sendq p")
    case Nil
    with AtReceive c show ?thesis by (simp add: main_def)
  next
    case (Cons tv q)
    obtain t v where tv: "tv = (t, v)" by (cases tv)
    from c alive Cons tv have o: "offered p = (t, v) # q" by (simp add: coordinated_def)
    from AtReceive Cons tv have m: "main p =
       p\<lparr>tasks := (tasks p)(t := Returned), sendq := q, received := received p @ [v],
         logged := logged p @ [Fatal v], exitCode := Some 1\<rparr>" by (simp add: main_def)
    from c alive o show ?thesis unfolding m
      by (auto simp: coordinated_def halted_def)
  qed
qed

lemma coordinated_step:
  assumes c: "coordinated p" and s: "staged p"
  shows "coordinated (step a p)"
proof (cases "exitCode p = None")
  case False
  with c show ?thesis by (simp add: step.simps)
next
  case alive: True
  show ?thesis
  proof (cases a)
    case Main
    with alive c s show ?thesis by (simp add: step.simps coordinated_main)
  next
    case (Signal sg)
    with alive c show ?thesis by (simp add: step.simps coordinated_send halted_def)
  next
    case (ListenAndServeReturns err)
    with alive c show ?thesis by (simp add: step.simps coordinated_send halted_def)
  next
    case (ListenFails err)
    with alive c show ?thesis by (simp add: step.simps coordinated_send halted_def)
  next
    case ListenSucceeds
    with alive c show ?thesis by (auto simp: step.simps coordinated_def halted_def)
  next
    case (ServeReturns r)
    with alive c show ?thesis by (simp add: step.simps coordinated_send halted_def)
  next
    case (Request t)
    with alive c show ?thesis by (auto simp: step.simps coordinated_def)
  qed
qed

lemma staged_start: "staged (start e)"
  by (simp add: staged_def start_def)

lemma staged_send:
  assumes "staged p" "tasks p t = Running \<or> tasks p t = Serving"
  shows "staged (send t v p)"
proof -
  have n: "tasks p t \<noteq> NotLaunched" using assms(2) by auto
  have "\<And>u. (tasks (send t v p) u = NotLaunched) = (tasks p u = NotLaunched)"
    using n by (simp add: send_def)
  moreover have "pc (send t v p) = pc p" "exitCode (send t v p) = exitCode p"
    "panicked (send t v p) = panicked p" "flags (send t v p) = flags p"
    by (simp_all add: send_def)
  ultimately show ?thesis
    using assms(1) unfolding staged_def by simp
qed

lemma staged_main:
  assumes s: "staged p" and alive: "exitCode p = None"
  shows "staged (main p)"
proof (cases "pc p")
  case AtGoSignal
  with s alive show ?thesis by (auto simp: main_def go_def staged_def)
next
  case AtInitJaeger
  with s alive show ?thesis
    by (auto simp: main_def initJaeger_cases staged_def split: option.splits)
next
  case AtGoHTTP
  with s alive show ?thesis by (auto simp: main_def go_def staged_def)
next
  case AtGoGRPC
  with s alive show ?thesis by (auto simp: main_def go_def staged_def)
next
  case AtInfo
  with s alive show ?thesis by (auto simp: main_def staged_def)
next
  case AtReceive
  with s alive show ?thesis
    by (cases "sendq p") (auto simp: main_def staged_def split: if_splits)
qed

lemma staged_step:
  assumes s: "staged p"
  shows "staged (step a p)"
proof (cases "exitCode p = None")
  case False
  with s show ?thesis by (simp add: step.simps)
next
  case alive: True
  show ?thesis
  proof (cases a)
    case Main
    with alive s show ?thesis by (simp add: step.simps staged_main)
  next
    case (Signal sg)
    with alive s show ?thesis by (simp add: step.simps staged_send)
  next
    case (ListenAndServeReturns err)
    with alive s show ?thesis by (simp add: step.simps staged_send)
  next
    case (ListenFails err)
    with alive s show ?thesis by (simp add: step.simps staged_send)
  next
    case ListenSucceeds
    with alive s show ?thesis by (auto simp: step.simps staged_def)
  next
    case (ServeReturns r)
    with alive s show ?thesis by (simp add: step.simps staged_send)
  next
    case (Request t)
    with alive s show ?thesis by (auto simp: step.simps staged_def)
  qed
qed

lemma invariants_run:
  "coordinated p \<Longrightarrow> staged p \<Longrightarrow> coordinated (run as p) \<and> staged (run as p)"
proof (induction as arbitrary: p)
  case Nil
  then show ?case by simp
next
  case (Cons a as)
  from Cons.prems have "coordinated (step a p)"
    by (rule coordinated_step)
  moreover from Cons.prems(2) have "staged (step a p)"
    by (rule staged_step)
  ultimately have "coordinated (run as (step a p)) \<and> staged (run as (step a p))"
    by (rule Cons.IH)
  then show ?case by simp
qed

lemma reachable_coordinated: "coordinated (run as (start e))"
  using invariants_run [OF coordinated_start staged_start] by blast

lemma reachable_staged: "staged (run as (start e))"
  using invariants_run [OF coordinated_start staged_start] by blast

lemma halted_go:
  "tasks p u = NotLaunched \<Longrightarrow> halted (tasks p t) \<Longrightarrow> halted (tasks (go u p) t)"
  by (auto simp: go_def halted_def)

lemma halted_main:
  assumes s: "staged p" and h: "halted (tasks p t)"
  shows "halted (tasks (main p) t)"
proof (cases "pc p")
  case AtGoSignal
  with s have "tasks p SignalWatcher = NotLaunched" by (simp add: staged_def)
  with AtGoSignal h show ?thesis by (simp add: main_def halted_go)
next
  case AtInitJaeger
  with h show ?thesis by (simp add: main_def initJaeger_cases split: option.splits)
next
  case AtGoHTTP
  with s have "tasks p HTTPTransport = NotLaunched" by (simp add: staged_def)
  with AtGoHTTP h show ?thesis by (simp add: main_def halted_go)
next
  case AtGoGRPC
  with s have "tasks p GRPCTransport = NotLaunched" by (simp add: staged_def)
  with AtGoGRPC h show ?thesis by (simp add: main_def halted_go)
next
  case AtInfo
  with h show ?thesis by (simp add: main_def)
next
  case AtReceive
  with h show ?thesis
    by (cases "sendq p") (auto simp: main_def halted_def)
qed

lemma halted_step:
  assumes s: "staged p" and h: "halted (tasks p t)"
  shows "halted (tasks (step a p) t)"
proof (cases "exitCode p = None")
  case False
  with h show ?thesis by (simp add: step.simps)
next
  case alive: True
  show ?thesis
  proof (cases a)
    case Main
    with alive s h show ?thesis by (simp add: step.simps halted_main)
  next
    case (Signal sg)
    with alive h show ?thesis by (auto simp: step.simps send_def halted_def)
  next
    case (ListenAndServeReturns err)
    with alive h show ?thesis by (auto simp: step.simps send_def halted_def)
  next
    case (ListenFails err)
    with alive h show ?thesis by (auto simp: step.simps send_def halted_def)
  next
    case ListenSucceeds
    with alive h show ?thesis by (auto simp: step.simps halted_def)
  next
    case (ServeReturns r)
    with alive h show ?thesis by (auto simp: step.simps send_def halted_def)
  next
    case (Request u)
    with alive h show ?thesis by (auto simp: step.simps)
  qed
qed

lemma halted_run: "staged p \<Longrightarrow> halted (tasks p t) \<Longrightarrow> halted (tasks (run as p) t)"
proof (induction as arbitrary: p)
  case Nil
  then show ?case by simp
next
  case (Cons a as)
  from Cons.prems(1) have "staged (step a p)"
    by (rule staged_step)
  moreover from Cons.prems have "halted (tasks (step a p) t)"
    by (rule halted_step)
  ultimately have "halted (tasks (run as (step a p)) t)"
    by (rule Cons.IH)
  then show ?case by simp
qed

lemma distinct_fst_filter:
  "distinct (map fst xs) \<Longrightarrow> length (filter (\<lambda>tv. fst tv = t) xs) \<le> 1"
proof (induction xs)
  case Nil
  then show ?case by simp
next
  case (Cons x xs)
  show ?case
  proof (cases "fst x = t")
    case True
    with Cons.prems have "t \<notin> fst ` set xs" by auto
    then have "filter (\<lambda>tv. fst tv = t) xs = []"
      by (auto simp: filter_empty_conv)
    with True show ?thesis by simp
  next
    case False
    with Cons show ?thesis by simp
  qed
qed

subsection \<open>main delivers the first value\<close>

lemma step_Main: "exitCode p = None \<Longrightarrow> step Main p = main p"
  by (simp add: step.simps)

lemma deliver_AtReceive:
  assumes "exitCode p = None" "pc p = AtReceive" "sendq p = (t, v) # q" "received p = []"
  shows "exitCode (run (Main # as) p) = Some 1
       \<and> received (run (Main # as) p) = [v]
       \<and> last (logged (run (Main # as) p)) = Fatal v"
proof -
  from assms have m: "step Main p =
       p\<lparr>tasks := (tasks p)(t := Returned), sendq := q, received := received p @ [v],
         logged := logged p @ [Fatal v], exitCode := Some 1\<rparr>"
    by (simp add: step_Main main_def)
  then have "exitCode (step Main p) \<noteq> None" by simp
  then have "run as (step Main p) = step Main p" by (rule run_after_exit)
  with m assms(4) show ?thesis by simp
qed

lemma deliver_AtInfo:
  assumes "exitCode p = None" "pc p = AtInfo" "sendq p = (t, v) # q" "received p = []"
  shows "exitCode (run (Main # Main # as) p) = Some 1
       \<and> received (run (Main # Main # as) p) = [v]
       \<and> last (logged (run (Main # Main # as) p)) = Fatal v"
proof -
  from assms have m: "step Main p =
       p\<lparr>logged := logged p @ [Info (gRPCAddr (flags p))], pc := AtReceive\<rparr>"
    by (simp add: step_Main main_def)
  have "exitCode (step Main p) = None" "pc (step Main p) = AtReceive"
    "sendq (step Main p) = (t, v) # q" "received (step Main p) = []"
    using assms by (simp_all add: m)
  from deliver_AtReceive [OF this] show ?thesis by simp
qed

lemma deliver_AtGoGRPC:
  assumes "exitCode p = None" "pc p = AtGoGRPC" "sendq p = (t, v) # q" "received p = []"
  shows "exitCode (run (Main # Main # Main # as) p) = Some 1
       \<and> received (run (Main # Main # Main # as) p) = [v]
       \<and> last (logged (run (Main # Main # Main # as) p)) = Fatal v"
proof -
  from assms have m: "step Main p = (go GRPCTransport p)\<lparr>pc := AtInfo\<rparr>"
    by (simp add: step_Main main_def)
  have "exitCode (step Main p) = None" "pc (step Main p) = AtInfo"
    "sendq (step Main p) = (t, v) # q" "received (step Main p) = []"
    using assms by (simp_all add: m go_def)
  from deliver_AtInfo [OF this] show ?thesis by simp
qed

lemma deliver_AtGoHTTP:
  assumes "exitCode p = None" "pc p = AtGoHTTP" "sendq p = (t, v) # q" "received p = []"
  shows "exitCode (run (Main # Main # Main # Main # as) p) = Some 1
       \<and> received (run (Main # Main # Main # Main # as) p) = [v]
       \<and> last (logged (run (Main # Main # Main # Main # as) p)) = Fatal v"
proof -
  from assms have m: "step Main p = (go HTTPTransport p)\<lparr>pc := AtGoGRPC\<rparr>"
    by (simp add: step_Main main_def)
  have "exitCode (step Main p) = None" "pc (step Main p) = AtGoGRPC"
    "sendq (step Main p) = (t, v) # q" "received (step Main p) = []"
    using assms by (simp_all add: m go_def)
  from deliver_AtGoGRPC [OF this] show ?thesis by simp
qed

lemma deliver_AtInitJaeger:
  assumes "exitCode p = None" "pc p = AtInitJaeger" "sendq p = (t, v) # q" "received p = []"
      and "tracerFailure (flags p) = None"
  shows "exitCode (run (Main # Main # Main # Main # Main # as) p) = Some 1
       \<and> received (run (Main # Main # Main # Main # Main # as) p) = [v]
       \<and> last (logged (run (Main # Main # Main # Main # Main # as) p)) = Fatal v"
proof -
  from assms have m: "step Main p =
       p\<lparr>globalTracer := Some \<lparr>serviceName = ''vaultService'', tracerSampler = ConstSampler True,
                                logSpans = False\<rparr>, pc := AtGoHTTP\<rparr>"
    by (simp add: step_Main main_def initJaeger_cases)
  have "exitCode (step Main p) = None" "pc (step Main p) = AtGoHTTP"
    "sendq (step Main p) = (t, v) # q" "received (step Main p) = []"
    using assms by (simp_all add: m)
  from deliver_AtGoHTTP [OF this] show ?thesis by simp
qed

lemma main_delivers:
  assumes c: "coordinated p" and s: "staged p" and alive: "exitCode p = None"
      and o: "offered p \<noteq> []" and tr: "tracerFailure (flags p) = None"
  shows "exitCode (run startup p) = Some 1
       \<and> received (run startup p) = [snd (hd (offered p))]
       \<and> last (logged (run startup p)) = Fatal (snd (hd (offered p)))"
proof -
  from o obtain t v q where ov: "offered p = (t, v) # q"
    by (cases "offered p") auto
  from coordinated_unread [OF c] alive ov have q: "sendq p = (t, v) # q" "received p = []"
    by simp_all
  have "halted (tasks p t)"
    using c ov by (auto simp: coordinated_def)
  then have launched: "tasks p t \<noteq> NotLaunched"
    by (auto simp: halted_def)
  have notfirst: "pc p \<noteq> AtGoSignal"
  proof
    assume "pc p = AtGoSignal"
    with s have "tasks p SignalWatcher = NotLaunched" "tasks p HTTPTransport = NotLaunched"
      "tasks p GRPCTransport = NotLaunched"
      by (simp_all add: staged_def)
    with launched show False by (cases t) simp_all
  qed
  have "exitCode (run startup p) = Some 1
       \<and> received (run startup p) = [v]
       \<and> last (logged (run startup p)) = Fatal v"
  proof (cases "pc p")
    case AtGoSignal
    with notfirst show ?thesis by simp
  next
    case AtInitJaeger
    from deliver_AtInitJaeger [OF alive this q tr, of "[]"] show ?thesis
      by (simp add: startup_def)
  next
    case AtGoHTTP
    from deliver_AtGoHTTP [OF alive this q, of "[Main]"] show ?thesis
      by (simp add: startup_def)
  next
    case AtGoGRPC
    from deliver_AtGoGRPC [OF alive this q, of "[Main, Main]"] show ?thesis
      by (simp add: startup_def)
  next
    case AtInfo
    from deliver_AtInfo [OF alive this q, of "[Main, Main, Main]"] show ?thesis
      by (simp add: startup_def)
  next
    case AtReceive
    from deliver_AtReceive [OF alive this q, of "[Main, Main, Main, Main]"] show ?thesis
      by (simp add: startup_def)
  qed
  with ov show ?thesis by simp
qed

subsection \<open>The runs of the server, evaluated\<close>

lemma gRPCAddr_goodEnv: "gRPCAddr goodEnv = '':8085''"
  by (simp add: goodEnv_def)

lemma tracerFailure_goodEnv: "tracerFailure goodEnv = None"
  by (simp add: goodEnv_def)

lemma tracerFailure_badEnv:
  "tracerFailure badEnv = Some (ErrorString ''dial udp: lookup localhost: no such host'')"
  by (simp add: badEnv_def)

lemma run_startup: "run startup (start goodEnv) = afterStartup"
proof -
  define s1 where "s1 = (start goodEnv)\<lparr>tasks := (\<lambda>t. NotLaunched)(SignalWatcher := Running),
                                        pc := AtInitJaeger\<rparr>"
  define s2 where "s2 = s1\<lparr>globalTracer := Some jaegerTracer, pc := AtGoHTTP\<rparr>"
  define s3 where "s3 = s2\<lparr>tasks := (tasks s2)(HTTPTransport := Running), pc := AtGoGRPC\<rparr>"
  define s4 where "s4 = s3\<lparr>tasks := (tasks s3)(GRPCTransport := Running), pc := AtInfo\<rparr>"
  have a: "step Main (start goodEnv) = s1"
    by (simp add: step.simps main_def go_def start_def s1_def)
  have b: "step Main s1 = s2"
    by (simp add: step.simps main_def initJaeger_cases tracerFailure_goodEnv start_def
        s1_def s2_def jaegerTracer_def)
  have c: "step Main s2 = s3"
    by (simp add: step.simps main_def go_def start_def s1_def s2_def s3_def)
  have d: "step Main s3 = s4"
    by (simp add: step.simps main_def go_def start_def s1_def s2_def s3_def s4_def)
  have all: "(\<lambda>t. NotLaunched)(SignalWatcher := Running, HTTPTransport := Running,
               GRPCTransport := Running) = (\<lambda>t. Running)"
  proof
    fix t show "((\<lambda>t. NotLaunched)(SignalWatcher := Running, HTTPTransport := Running,
               GRPCTransport := Running)) t = Running"
      by (cases t) simp_all
  qed
  have e: "step Main s4 = afterStartup"
    by (simp add: step.simps main_def start_def s1_def s2_def s3_def s4_def afterStartup_def
        gRPCAddr_goodEnv all)
  show ?thesis
    by (simp add: startup_def a b c d e)
qed

lemma run_schedule: "run schedule (start goodEnv) = afterSchedule"
proof -
  define s1 where "s1 = afterStartup\<lparr>tasks := (tasks afterStartup)(GRPCTransport := Serving),
                                     logged := [Info '':8085'', Info ''grpc::8085'']\<rparr>"
  define s2 where "s2 = s1\<lparr>tasks := (tasks s1)(HTTPTransport := Sending (Some addrInUse)),
                           sendq := [(HTTPTransport, Some addrInUse)],
                           offered := [(HTTPTransport, Some addrInUse)]\<rparr>"
  have a: "step ListenSucceeds afterStartup = s1"
    by (simp add: afterStartup_def s1_def step.simps gRPCAddr_goodEnv)
  have b: "step (ListenAndServeReturns addrInUse) s1 = s2"
    by (simp add: afterStartup_def s1_def s2_def step.simps send_def)
  have c: "step (Signal SIGINT) s2 = afterSchedule"
    by (auto simp: afterStartup_def s1_def s2_def afterSchedule_def step.simps send_def
        fun_eq_iff split: task.splits)
  show ?thesis
    by (simp add: schedule_def run_append run_startup a b c)
qed

lemma step_Main_afterSchedule: "step Main afterSchedule = afterReceive"
  by (simp add: afterSchedule_def afterStartup_def afterReceive_def step.simps main_def)

lemma run_schedule_Main: "run (schedule @ [Main]) (start goodEnv) = afterReceive"
  by (simp add: run_snoc run_schedule step_Main_afterSchedule)

lemma run_early: "run early (start badEnv) = afterPanic"
proof -
  define s1 where "s1 = (start badEnv)\<lparr>tasks := (\<lambda>t. NotLaunched)(SignalWatcher := Running),
                                       pc := AtInitJaeger\<rparr>"
  define s2 where "s2 = s1\<lparr>tasks := (tasks s1)
                             (SignalWatcher := Sending (Some (ErrorString ''interrupt''))),
                           sendq := [(SignalWatcher, Some (ErrorString ''interrupt''))],
                           offered := [(SignalWatcher, Some (ErrorString ''interrupt''))]\<rparr>"
  have a: "step Main (start badEnv) = s1"
    by (simp add: step.simps main_def go_def start_def s1_def)
  have b: "step (Signal SIGINT) s1 = s2"
    by (simp add: step.simps send_def start_def s1_def s2_def)
  have c: "step Main s2 = afterPanic"
    by (auto simp: step.simps main_def initJaeger_cases tracerFailure_badEnv start_def
        s1_def s2_def afterPanic_def fun_eq_iff split: task.splits)
  show ?thesis
    by (simp add: early_def a b c)
qed

subsection \<open>Tracer initialisation\<close>

text \<open>
  C10, as claimed: when the tracer cannot be built, startup is aborted before any listener
  or the signal watcher is started. It is not so for the signal watcher: main starts it
  before it calls initJaeger, so at the panic it is already running.
\<close>

theorem initJaeger_panic_after_signal_watcher_counterexample:
  "panicked (run [Main, Main] (start badEnv)) \<noteq> None
   \<and> tasks (run [Main, Main] (start badEnv)) SignalWatcher = Running"
  by (simp add: step.simps main_def go_def start_def initJaeger_cases tracerFailure_badEnv)

text \<open>
  C10, amended: when the tracer cannot be built, initJaeger panics with the error's
  message; in no run of main is the HTTP or the gRPC goroutine ever started, and when
  main reaches the call it panics and the process ends there with exit code 2, the
  signal watcher having been started before, and nothing happens afterwards. When the
  tracer is built, initJaeger returns it, with the constant sampler that samples every
  trace.
\<close>

theorem initJaeger_panics_before_listeners:
  assumes p: "p = run as (start e)" and f: "tracerFailure e = Some err"
  shows "initJaeger (Some err) service
           = Inl (PanicMsg (''ERROR: cannot init Jaeger: '' @ Error err @ [CHR 0x0A]))
       \<and> initJaeger None service
           = Inr (\<lparr>serviceName = service, tracerSampler = ConstSampler True,
                   logSpans = False\<rparr>, Closer)
       \<and> IsSampled (ConstSampler True) traceID = Some True
       \<and> tasks p HTTPTransport = NotLaunched
       \<and> tasks p GRPCTransport = NotLaunched
       \<and> (pc p = AtInitJaeger \<and> exitCode p = None \<longrightarrow>
            panicked (step Main p)
              = Some (PanicMsg (''ERROR: cannot init Jaeger: '' @ Error err @ [CHR 0x0A]))
          \<and> exitCode (step Main p) = Some 2
          \<and> tasks (step Main p) SignalWatcher \<noteq> NotLaunched
          \<and> run bs (step Main p) = step Main p)"
proof -
  have s: "staged p"
    unfolding p by (rule reachable_staged)
  have fl: "tracerFailure (flags p) = Some err"
    unfolding p using f by (simp add: flags_run start_def)
  from s fl have early: "pc p = AtGoSignal \<or> pc p = AtInitJaeger"
    by (simp add: staged_def)
  with s have never: "tasks p HTTPTransport = NotLaunched" "tasks p GRPCTransport = NotLaunched"
    by (auto simp: staged_def)
  have panic: "pc p = AtInitJaeger \<and> exitCode p = None \<longrightarrow>
            panicked (step Main p)
              = Some (PanicMsg (''ERROR: cannot init Jaeger: '' @ Error err @ [CHR 0x0A]))
          \<and> exitCode (step Main p) = Some 2
          \<and> tasks (step Main p) SignalWatcher \<noteq> NotLaunched
          \<and> run bs (step Main p) = step Main p"
  proof
    assume a: "pc p = AtInitJaeger \<and> exitCode p = None"
    with fl have m: "step Main p
        = p\<lparr>panicked := Some (PanicMsg (''ERROR: cannot init Jaeger: '' @ Error err
                                          @ [CHR 0x0A])),
            exitCode := Some 2\<rparr>"
      by (simp add: step_Main main_def initJaeger_cases)
    from s a have w: "tasks p SignalWatcher \<noteq> NotLaunched"
      by (simp add: staged_def)
    have "exitCode (step Main p) \<noteq> None" by (simp add: m)
    then have "run bs (step Main p) = step Main p" by (rule run_after_exit)
    with m w show "panicked (step Main p)
              = Some (PanicMsg (''ERROR: cannot init Jaeger: '' @ Error err @ [CHR 0x0A]))
          \<and> exitCode (step Main p) = Some 2
          \<and> tasks (step Main p) SignalWatcher \<noteq> NotLaunched
          \<and> run bs (step Main p) = step Main p"
      by simp
  qed
  from never panic show ?thesis
    by (simp add: initJaeger_cases)
qed

theorem initJaeger_panics_before_listeners_witness:
  "tracerFailure badEnv = Some (ErrorString ''dial udp: lookup localhost: no such host'')
   \<and> pc (run [Main] (start badEnv)) = AtInitJaeger
   \<and> exitCode (run [Main] (start badEnv)) = None
   \<and> tasks (run [Main] (start badEnv)) HTTPTransport = NotLaunched
   \<and> tasks (run [Main] (start badEnv)) GRPCTransport = NotLaunched
   \<and> panicked (step Main (run [Main] (start badEnv)))
       = Some (PanicMsg (''ERROR: cannot init Jaeger: dial udp: lookup localhost: no such host'' @ [CHR 0x0A]))
   \<and> exitCode (step Main (run [Main] (start badEnv))) = Some 2
   \<and> tasks (step Main (run [Main] (start badEnv))) SignalWatcher \<noteq> NotLaunched
   \<and> run [Signal SIGINT, Main] (step Main (run [Main] (start badEnv)))
       = step Main (run [Main] (start badEnv))"
proof -
  have h: "run [Main] (start badEnv) = run [Main] (start badEnv)"
    by simp
  have a: "pc (run [Main] (start badEnv)) = AtInitJaeger"
    "exitCode (run [Main] (start badEnv)) = None"
    by (simp_all add: step.simps main_def go_def start_def)
  from initJaeger_panics_before_listeners [OF h tracerFailure_badEnv,
      where bs = "[Signal SIGINT, Main]"] a tracerFailure_badEnv
  show ?thesis by simp
qed

subsection \<open>The completion channel\<close>

text \<open>
  C1, as claimed: every termination trigger, here an interrupt that the signal watcher has
  received, is delivered through the completion channel and logged at fatal severity. It
  is not when the interrupt arrives while main is still starting and initJaeger then
  panics: the watcher's value stays unread, nothing is logged, and the process ends with
  the exit code of the panic.
\<close>

theorem signal_before_panic_counterexample:
  "offered (run early (start badEnv)) = [(SignalWatcher, Some (ErrorString ''interrupt''))]
   \<and> received (run early (start badEnv)) = []
   \<and> logged (run early (start badEnv)) = []
   \<and> exitCode (run early (start badEnv)) = Some 2"
  by (simp add: run_early afterPanic_def)

text \<open>
  C1, amended. At every moment of every run of main: a trigger (the HTTP listener
  returning its error, the gRPC listener failing to bind or its Serve returning, a signal
  reaching the watcher) puts its value on the completion channel; when the tracer can be
  built, the process is alive and a value has been sent, main's own next statements
  receive the first value sent, log it at fatal level and end the process with exit code
  1; a process that ended with exit code 1 has read exactly that first value and its last
  log line is the fatal one; a goroutine that has sent never runs or serves again; and
  once the process has ended no further event changes anything, so no transport handles
  another request.
\<close>

theorem first_trigger_ends_process:
  assumes p: "p = run as (start e)"
  shows "(exitCode p = Some 1 \<longrightarrow>
            offered p \<noteq> [] \<and> received p = [snd (hd (offered p))]
          \<and> last (logged p) = Fatal (snd (hd (offered p))))
       \<and> (tracerFailure e = None \<and> exitCode p = None \<and> offered p \<noteq> [] \<longrightarrow>
            exitCode (run startup p) = Some 1
          \<and> received (run startup p) = [snd (hd (offered p))]
          \<and> last (logged (run startup p)) = Fatal (snd (hd (offered p))))
       \<and> (exitCode p = None \<and> tasks p HTTPTransport = Running \<longrightarrow>
            offered (step (ListenAndServeReturns err) p) = offered p @ [(HTTPTransport, Some err)])
       \<and> (exitCode p = None \<and> tasks p GRPCTransport = Running \<longrightarrow>
            offered (step (ListenFails err) p) = offered p @ [(GRPCTransport, Some err)])
       \<and> (exitCode p = None \<and> tasks p GRPCTransport = Serving \<longrightarrow>
            offered (step (ServeReturns r) p) = offered p @ [(GRPCTransport, r)])
       \<and> (exitCode p = None \<and> tasks p SignalWatcher = Running \<longrightarrow>
            offered (step (Signal sg) p) = offered p @ [(SignalWatcher, Some (signalError sg))])
       \<and> (halted (tasks p t) \<longrightarrow> halted (tasks (run bs p) t) \<and> \<not> serving (run bs p) t)
       \<and> (exitCode p \<noteq> None \<longrightarrow> run bs p = p \<and> served (run bs p) = served p)"
proof -
  have c: "coordinated p"
    unfolding p by (rule reachable_coordinated)
  have s: "staged p"
    unfolding p by (rule reachable_staged)
  have fl: "flags p = e"
    unfolding p by (simp add: flags_run start_def)
  have one: "exitCode p = Some 1 \<longrightarrow>
            offered p \<noteq> [] \<and> received p = [snd (hd (offered p))]
          \<and> last (logged p) = Fatal (snd (hd (offered p)))"
  proof
    assume "exitCode p = Some 1"
    from coordinated_fatal [OF c this] obtain t v where
      "offered p = (t, v) # sendq p" "received p = [v]" "last (logged p) = Fatal v"
      by blast
    then show "offered p \<noteq> [] \<and> received p = [snd (hd (offered p))]
          \<and> last (logged p) = Fatal (snd (hd (offered p)))"
      by simp
  qed
  have two: "tracerFailure e = None \<and> exitCode p = None \<and> offered p \<noteq> [] \<longrightarrow>
            exitCode (run startup p) = Some 1
          \<and> received (run startup p) = [snd (hd (offered p))]
          \<and> last (logged (run startup p)) = Fatal (snd (hd (offered p)))"
  proof
    assume a: "tracerFailure e = None \<and> exitCode p = None \<and> offered p \<noteq> []"
    with fl have "tracerFailure (flags p) = None" by simp
    with a show "exitCode (run startup p) = Some 1
          \<and> received (run startup p) = [snd (hd (offered p))]
          \<and> last (logged (run startup p)) = Fatal (snd (hd (offered p)))"
      by (simp add: main_delivers [OF c s])
  qed
  have sends: "(exitCode p = None \<and> tasks p HTTPTransport = Running \<longrightarrow>
            offered (step (ListenAndServeReturns err) p) = offered p @ [(HTTPTransport, Some err)])
       \<and> (exitCode p = None \<and> tasks p GRPCTransport = Running \<longrightarrow>
            offered (step (ListenFails err) p) = offered p @ [(GRPCTransport, Some err)])
       \<and> (exitCode p = None \<and> tasks p GRPCTransport = Serving \<longrightarrow>
            offered (step (ServeReturns r) p) = offered p @ [(GRPCTransport, r)])
       \<and> (exitCode p = None \<and> tasks p SignalWatcher = Running \<longrightarrow>
            offered (step (Signal sg) p) = offered p @ [(SignalWatcher, Some (signalError sg))])"
    by (simp add: step.simps send_def)
  have stay: "halted (tasks p t) \<longrightarrow> halted (tasks (run bs p) t) \<and> \<not> serving (run bs p) t"
  proof
    assume "halted (tasks p t)"
    with s have h: "halted (tasks (run bs p) t)" by (rule halted_run)
    then have "\<not> serving (run bs p) t"
      by (auto simp: serving_def halted_def)
    with h show "halted (tasks (run bs p) t) \<and> \<not> serving (run bs p) t" by simp
  qed
  have over: "exitCode p \<noteq> None \<longrightarrow> run bs p = p \<and> served (run bs p) = served p"
    using run_after_exit [of p bs] by simp
  from one two sends stay over show ?thesis
    by blast
qed

theorem first_trigger_ends_process_witness:
  "afterSchedule = run schedule (start goodEnv)
   \<and> tracerFailure goodEnv = None
   \<and> exitCode afterSchedule = None
   \<and> offered afterSchedule
       = [(HTTPTransport, Some addrInUse), (SignalWatcher, Some (ErrorString ''interrupt''))]
   \<and> exitCode (run startup afterSchedule) = Some 1
   \<and> received (run startup afterSchedule) = [Some addrInUse]
   \<and> last (logged (run startup afterSchedule)) = Fatal (Some addrInUse)
   \<and> tasks afterSchedule GRPCTransport = Serving
   \<and> offered (step (ServeReturns None) afterSchedule)
       = [(HTTPTransport, Some addrInUse), (SignalWatcher, Some (ErrorString ''interrupt'')),
          (GRPCTransport, None)]
   \<and> halted (tasks afterSchedule HTTPTransport)
   \<and> halted (tasks (run [Request HTTPTransport, ListenAndServeReturns addrInUse] afterSchedule)
               HTTPTransport)
   \<and> \<not> serving (run [Request HTTPTransport, ListenAndServeReturns addrInUse] afterSchedule)
               HTTPTransport
   \<and> afterStartup = run startup (start goodEnv)
   \<and> exitCode afterStartup = None
   \<and> tasks afterStartup HTTPTransport = Running
   \<and> tasks afterStartup GRPCTransport = Running
   \<and> tasks afterStartup SignalWatcher = Running
   \<and> offered (step (ListenAndServeReturns addrInUse) afterStartup)
       = [(HTTPTransport, Some addrInUse)]
   \<and> offered (step (ListenFails addrInUse) afterStartup) = [(GRPCTransport, Some addrInUse)]
   \<and> offered (step (Signal SIGTERM) afterStartup)
       = [(SignalWatcher, Some (ErrorString ''terminated''))]
   \<and> afterReceive = run (schedule @ [Main]) (start goodEnv)
   \<and> exitCode afterReceive = Some 1
   \<and> received afterReceive = [Some addrInUse]
   \<and> last (logged afterReceive) = Fatal (Some addrInUse)
   \<and> run [Request GRPCTransport, Signal SIGTERM, Main] afterReceive = afterReceive
   \<and> served (run [Request GRPCTransport, Signal SIGTERM, Main] afterReceive)
       = served afterReceive"
proof -
  have p: "afterSchedule = run schedule (start goodEnv)"
    by (simp add: run_schedule)
  have q: "afterReceive = run (schedule @ [Main]) (start goodEnv)"
    by (simp add: run_schedule_Main)
  have r: "afterStartup = run startup (start goodEnv)"
    by (simp add: run_startup)
  have fp: "exitCode afterSchedule = None"
    "offered afterSchedule
       = [(HTTPTransport, Some addrInUse), (SignalWatcher, Some (ErrorString ''interrupt''))]"
    "tasks afterSchedule GRPCTransport = Serving"
    "halted (tasks afterSchedule HTTPTransport)"
    by (simp_all add: afterSchedule_def afterStartup_def halted_def)
  have fq: "exitCode afterReceive = Some 1"
    "offered afterReceive
       = [(HTTPTransport, Some addrInUse), (SignalWatcher, Some (ErrorString ''interrupt''))]"
    by (simp_all add: afterReceive_def afterSchedule_def afterStartup_def)
  have fr: "exitCode afterStartup = None" "offered afterStartup = []"
    "tasks afterStartup HTTPTransport = Running"
    "tasks afterStartup GRPCTransport = Running"
    "tasks afterStartup SignalWatcher = Running"
    by (simp_all add: afterStartup_def)
  note tp = first_trigger_ends_process [OF p, where r = None and t = HTTPTransport
      and bs = "[Request HTTPTransport, ListenAndServeReturns addrInUse]"]
  note tq = first_trigger_ends_process [OF q,
      where bs = "[Request GRPCTransport, Signal SIGTERM, Main]"]
  note tr = first_trigger_ends_process [OF r, where err = addrInUse and sg = SIGTERM]
  from tp fp tracerFailure_goodEnv have a: "exitCode (run startup afterSchedule) = Some 1
     \<and> received (run startup afterSchedule) = [Some addrInUse]
     \<and> last (logged (run startup afterSchedule)) = Fatal (Some addrInUse)
     \<and> offered (step (ServeReturns None) afterSchedule)
       = [(HTTPTransport, Some addrInUse), (SignalWatcher, Some (ErrorString ''interrupt'')),
          (GRPCTransport, None)]
     \<and> halted (tasks (run [Request HTTPTransport, ListenAndServeReturns addrInUse]
                         afterSchedule) HTTPTransport)
     \<and> \<not> serving (run [Request HTTPTransport, ListenAndServeReturns addrInUse] afterSchedule)
               HTTPTransport"
    by simp
  from tq fq have b: "received afterReceive = [Some addrInUse]
     \<and> last (logged afterReceive) = Fatal (Some addrInUse)
     \<and> run [Request GRPCTransport, Signal SIGTERM, Main] afterReceive = afterReceive
     \<and> served (run [Request GRPCTransport, Signal SIGTERM, Main] afterReceive)
         = served afterReceive"
    by simp
  from tr fr have c: "offered (step (ListenAndServeReturns addrInUse) afterStartup)
       = [(HTTPTransport, Some addrInUse)]
     \<and> offered (step (ListenFails addrInUse) afterStartup) = [(GRPCTransport, Some addrInUse)]
     \<and> offered (step (Signal SIGTERM) afterStartup)
       = [(SignalWatcher, Some (ErrorString ''terminated''))]"
    by simp
  from p q r fp fq(1) fr tracerFailure_goodEnv a b c show ?thesis
    by blast
qed

lemma offered_main: "offered (main q) = offered q"
  by (cases "pc q")
    (simp_all add: main_def go_def initJaeger_cases split: option.splits list.splits)

lemma offered_step_Main: "offered (step Main q) = offered q"
  by (simp add: step.simps offered_main)

text \<open>
  C2, as claimed: exactly one value is ever consumed from the completion channel, the
  coordinator performing its read and then exiting. It is not so when initJaeger panics:
  the process ends there with the exit code of the panic, main never reaches its receive,
  and the value the signal watcher has sent is never read, whatever happens afterwards.
\<close>

theorem panic_reads_nothing_counterexample:
  "exitCode (run early (start badEnv)) = Some 2
   \<and> sendq (run early (start badEnv)) = [(SignalWatcher, Some (ErrorString ''interrupt''))]
   \<and> length (received (run early (start badEnv))) = 0
   \<and> length (received (run (early @ [Main, Main, Signal SIGTERM, Main]) (start badEnv))) = 0"
proof -
  have x: "exitCode (run early (start badEnv)) \<noteq> None"
    by (simp add: run_early afterPanic_def)
  have "run (early @ [Main, Main, Signal SIGTERM, Main]) (start badEnv)
          = run early (start badEnv)"
    unfolding run_append by (rule run_after_exit [OF x])
  then show ?thesis
    by (simp add: run_early afterPanic_def)
qed

text \<open>
  C2, amended. At every moment of every run of main: each of the three goroutines has sent
  at most one value on the completion channel; main has read one value if the process was
  ended by the fatal log and none otherwise, so never more than one; main's receive
  blocks while no sender is waiting; when the tracer can be built, the process is alive
  and a value has been sent, main's own next statements read exactly one value, the first
  one sent, and end the process with exit code 1; and after that end the values of the
  other senders stay where they are, whatever happens: they are never read.
\<close>

theorem completion_channel_read_once:
  assumes p: "p = run as (start e)"
  shows "length (filter (\<lambda>tv. fst tv = t) (offered p)) \<le> 1
       \<and> length (received p) = (if exitCode p = Some 1 then 1 else 0)
       \<and> (exitCode p = None \<and> pc p = AtReceive \<and> sendq p = [] \<longrightarrow> step Main p = p)
       \<and> (tracerFailure e = None \<and> exitCode p = None \<and> offered p \<noteq> [] \<longrightarrow>
            exitCode (run startup p) = Some 1
          \<and> received (run startup p) = [snd (hd (offered p))]
          \<and> sendq (run startup p) = tl (offered p))
       \<and> (exitCode p = Some 1 \<longrightarrow>
            sendq p = tl (offered p)
          \<and> received (run bs p) = received p
          \<and> sendq (run bs p) = sendq p)"
proof -
  have c: "coordinated p"
    unfolding p by (rule reachable_coordinated)
  have s: "staged p"
    unfolding p by (rule reachable_staged)
  have fl: "flags p = e"
    unfolding p by (simp add: flags_run start_def)
  have sent: "length (filter (\<lambda>tv. fst tv = t) (offered p)) \<le> 1"
    by (rule distinct_fst_filter [OF coordinated_distinct [OF c]])
  have reads: "length (received p) = (if exitCode p = Some 1 then 1 else 0)"
  proof (cases "exitCode p = Some 1")
    case True
    from coordinated_fatal [OF c True] show ?thesis using True by auto
  next
    case False
    from coordinated_unread [OF c False] have "received p = []" by simp
    with False show ?thesis by simp
  qed
  have blocks: "exitCode p = None \<and> pc p = AtReceive \<and> sendq p = [] \<longrightarrow> step Main p = p"
    by (simp add: step_Main main_def)
  have progress: "tracerFailure e = None \<and> exitCode p = None \<and> offered p \<noteq> [] \<longrightarrow>
            exitCode (run startup p) = Some 1
          \<and> received (run startup p) = [snd (hd (offered p))]
          \<and> sendq (run startup p) = tl (offered p)"
  proof
    assume a: "tracerFailure e = None \<and> exitCode p = None \<and> offered p \<noteq> []"
    with fl have tr: "tracerFailure (flags p) = None" by simp
    from a tr have d: "exitCode (run startup p) = Some 1"
      "received (run startup p) = [snd (hd (offered p))]"
      by (simp_all add: main_delivers [OF c s])
    have c': "coordinated (run startup p)"
      using invariants_run [OF c s] by blast
    from coordinated_fatal [OF c' d(1)] obtain u v where
      o': "offered (run startup p) = (u, v) # sendq (run startup p)"
      by blast
    have same: "offered (run startup p) = offered p"
      by (simp add: startup_def offered_step_Main)
    from o' same have "sendq (run startup p) = tl (offered p)" by simp
    with d show "exitCode (run startup p) = Some 1
          \<and> received (run startup p) = [snd (hd (offered p))]
          \<and> sendq (run startup p) = tl (offered p)" by simp
  qed
  have rest: "exitCode p = Some 1 \<longrightarrow>
            sendq p = tl (offered p)
          \<and> received (run bs p) = received p
          \<and> sendq (run bs p) = sendq p"
  proof
    assume x: "exitCode p = Some 1"
    from coordinated_fatal [OF c x] have "sendq p = tl (offered p)" by auto
    moreover from x have "run bs p = p" by (simp add: run_after_exit)
    ultimately show "sendq p = tl (offered p)
          \<and> received (run bs p) = received p
          \<and> sendq (run bs p) = sendq p" by simp
  qed
  from sent reads blocks progress rest show ?thesis by blast
qed

theorem completion_channel_read_once_witness:
  "afterSchedule = run schedule (start goodEnv)
   \<and> tracerFailure goodEnv = None
   \<and> exitCode afterSchedule = None
   \<and> offered afterSchedule
       = [(HTTPTransport, Some addrInUse), (SignalWatcher, Some (ErrorString ''interrupt''))]
   \<and> exitCode (run startup afterSchedule) = Some 1
   \<and> received (run startup afterSchedule) = [Some addrInUse]
   \<and> sendq (run startup afterSchedule) = [(SignalWatcher, Some (ErrorString ''interrupt''))]
   \<and> afterStartup = run startup (start goodEnv)
   \<and> exitCode afterStartup = None
   \<and> pc afterStartup = AtReceive
   \<and> sendq afterStartup = []
   \<and> step Main afterStartup = afterStartup
   \<and> afterReceive = run (schedule @ [Main]) (start goodEnv)
   \<and> exitCode afterReceive = Some 1
   \<and> length (filter (\<lambda>tv. fst tv = HTTPTransport) (offered afterReceive)) \<le> 1
   \<and> length (received afterReceive) = 1
   \<and> sendq afterReceive = [(SignalWatcher, Some (ErrorString ''interrupt''))]
   \<and> received (run [Main, ServeReturns None, Main] afterReceive) = [Some addrInUse]
   \<and> sendq (run [Main, ServeReturns None, Main] afterReceive)
       = [(SignalWatcher, Some (ErrorString ''interrupt''))]"
proof -
  have p: "afterSchedule = run schedule (start goodEnv)"
    by (simp add: run_schedule)
  have q: "afterReceive = run (schedule @ [Main]) (start goodEnv)"
    by (simp add: run_schedule_Main)
  have r: "afterStartup = run startup (start goodEnv)"
    by (simp add: run_startup)
  have fp: "exitCode afterSchedule = None"
    "offered afterSchedule
       = [(HTTPTransport, Some addrInUse), (SignalWatcher, Some (ErrorString ''interrupt''))]"
    by (simp_all add: afterSchedule_def afterStartup_def)
  have fr: "exitCode afterStartup = None" "pc afterStartup = AtReceive"
    "sendq afterStartup = []"
    by (simp_all add: afterStartup_def)
  have x: "exitCode afterReceive = Some 1"
    by (simp add: afterReceive_def)
  have s: "sendq afterReceive = [(SignalWatcher, Some (ErrorString ''interrupt''))]"
    "received afterReceive = [Some addrInUse]"
    by (simp_all add: afterReceive_def)
  from completion_channel_read_once [OF p] fp tracerFailure_goodEnv
  have a: "exitCode (run startup afterSchedule) = Some 1
     \<and> received (run startup afterSchedule) = [Some addrInUse]
     \<and> sendq (run startup afterSchedule) = [(SignalWatcher, Some (ErrorString ''interrupt''))]"
    by simp
  from completion_channel_read_once [OF r] fr
  have b: "step Main afterStartup = afterStartup"
    by simp
  from completion_channel_read_once [OF q, where t = HTTPTransport
      and bs = "[Main, ServeReturns None, Main]"] x s
  have "length (filter (\<lambda>tv. fst tv = HTTPTransport) (offered afterReceive)) \<le> 1
     \<and> length (received afterReceive) = 1
     \<and> received (run [Main, ServeReturns None, Main] afterReceive) = [Some addrInUse]
     \<and> sendq (run [Main, ServeReturns None, Main] afterReceive)
       = [(SignalWatcher, Some (ErrorString ''interrupt''))]"
    by simp
  with p q r fp fr x s a b tracerFailure_goodEnv show ?thesis by blast
qed

end
